theory Spec2Isabelle
  imports Main "HOL-Library.AList"
begin

section \<open>Python values\<close>

text \<open>
  The adaptor works on the nested mappings, sequences and scalars that the TOSCA parser
  hands over and that end up in the YAML manifests.  They are embedded as one datatype.
  A mapping is an association list in insertion order (the order in which Python iterates
  a dict); keys are values as well and are compared structurally, so the keys \<open>1\<close> and
  \<open>True\<close>, which Python takes for one key, are two here.  Strings are sequences of bytes, and
  the operations on letters, digits and whitespace are those of ASCII.  Floats do not occur
  in any computation of the adaptor and are left out of the value type.
\<close>

datatype pyval =
    PNone
  | PBool bool
  | PInt int
  | PStr string
  | PList "pyval list"
  | PDict "(pyval \<times> pyval) list"

type_synonym pydict = "(pyval \<times> pyval) list"

text \<open>
  Exceptions are values.  \<open>ValueError\<close> carries its message, because the adaptor's own
  \<open>raise ValueError(...)\<close> statements are told apart by it; the exceptions raised by
  built-in operations on a value of the wrong type carry none.
\<close>

datatype pyerror =
    ValueError string
  | TypeError
  | AttributeError
  | IndexError

definition bindE :: "pyerror + 'a \<Rightarrow> ('a \<Rightarrow> pyerror + 'b) \<Rightarrow> pyerror + 'b" where
  "bindE m f = (case m of Inl e \<Rightarrow> Inl e | Inr x \<Rightarrow> f x)"

text \<open>Truth value testing, as \<open>if val\<close> and \<open>not val\<close> do it.\<close>

fun truthy :: "pyval \<Rightarrow> bool" where
  "truthy PNone = False"
| "truthy (PBool b) = b"
| "truthy (PInt i) = (i \<noteq> 0)"
| "truthy (PStr s) = (s \<noteq> [])"
| "truthy (PList xs) = (xs \<noteq> [])"
| "truthy (PDict d) = (d \<noteq> [])"

text \<open>\<open>a or b\<close>\<close>

definition py_or :: "pyval \<Rightarrow> pyval \<Rightarrow> pyval" where
  "py_or a b = (if truthy a then a else b)"

subsection \<open>Strings\<close>

definition lower_char :: "char \<Rightarrow> char" where
  "lower_char c =
     (case map_of (zip ''ABCDEFGHIJKLMNOPQRSTUVWXYZ'' ''abcdefghijklmnopqrstuvwxyz'') c of
        Some d \<Rightarrow> d | None \<Rightarrow> c)"

definition upper_char :: "char \<Rightarrow> char" where
  "upper_char c =
     (case map_of (zip ''abcdefghijklmnopqrstuvwxyz'' ''ABCDEFGHIJKLMNOPQRSTUVWXYZ'') c of
        Some d \<Rightarrow> d | None \<Rightarrow> c)"

definition str_lower :: "string \<Rightarrow> string" where
  "str_lower s = map lower_char s"

definition str_upper :: "string \<Rightarrow> string" where
  "str_upper s = map upper_char s"

definition is_space :: "char \<Rightarrow> bool" where
  "is_space c = (c \<in> set [CHR '' '', CHR 0x09, CHR 0x0A, CHR 0x0B, CHR 0x0C, CHR 0x0D,
                           CHR 0x1C, CHR 0x1D, CHR 0x1E, CHR 0x1F])"

text \<open>\<open>s.split()\<close>: the maximal runs of non-whitespace characters.\<close>

fun split_ws_acc :: "string \<Rightarrow> string \<Rightarrow> string list" where
  "split_ws_acc acc [] = (if acc = [] then [] else [rev acc])"
| "split_ws_acc acc (x # xs) =
     (if is_space x
      then (if acc = [] then split_ws_acc [] xs else rev acc # split_ws_acc [] xs)
      else split_ws_acc (x # acc) xs)"

definition str_split_ws :: "string \<Rightarrow> string list" where
  "str_split_ws s = split_ws_acc [] s"

text \<open>\<open>s.split(c)\<close> for a one-character separator: empty pieces are kept.\<close>

fun str_split_on :: "char \<Rightarrow> string \<Rightarrow> string list" where
  "str_split_on c [] = [] # []"
| "str_split_on c (x # xs) =
     (if x = c then [] # str_split_on c xs
      else (case str_split_on c xs of
              [] \<Rightarrow> [x] # []
            | w # ws \<Rightarrow> (x # w) # ws))"

text \<open>\<open>s.strip(c)\<close> for a one-character set.\<close>

definition str_strip_char :: "char \<Rightarrow> string \<Rightarrow> string" where
  "str_strip_char c s = rev (dropWhile (\<lambda>x. x = c) (rev (dropWhile (\<lambda>x. x = c) s)))"

text \<open>\<open>s.replace(c, "")\<close> for a one-character \<open>c\<close>.\<close>

definition str_remove_char :: "char \<Rightarrow> string \<Rightarrow> string" where
  "str_remove_char c s = filter (\<lambda>x. x \<noteq> c) s"

text \<open>\<open>sep.join(parts)\<close>\<close>

fun str_join :: "string \<Rightarrow> string list \<Rightarrow> string" where
  "str_join sep [] = []"
| "str_join sep [x] = x"
| "str_join sep (x # y # ys) = x @ sep @ str_join sep (y # ys)"

text \<open>\<open>sub in s\<close> on strings: \<open>sub\<close> occurs as a contiguous piece of \<open>s\<close>.\<close>

fun starts_with :: "string \<Rightarrow> string \<Rightarrow> bool" where
  "starts_with [] s = True"
| "starts_with (p # ps) [] = False"
| "starts_with (p # ps) (x # xs) = (p = x \<and> starts_with ps xs)"

fun str_contains :: "string \<Rightarrow> string \<Rightarrow> bool" where
  "str_contains sub [] = (sub = [])"
| "str_contains sub (x # xs) = (starts_with sub (x # xs) \<or> str_contains sub xs)"

text \<open>Comparison of strings as Python orders them: lexicographic on the character codes.\<close>

fun str_less :: "string \<Rightarrow> string \<Rightarrow> bool" where
  "str_less [] [] = False"
| "str_less [] (y # ys) = True"
| "str_less (x # xs) [] = False"
| "str_less (x # xs) (y # ys) =
     ((of_char x :: nat) < of_char y \<or> (x = y \<and> str_less xs ys))"

subsection \<open>Numbers and their decimal form\<close>

definition digit_value :: "char \<Rightarrow> nat option" where
  "digit_value c = map_of (zip ''0123456789'' [0, 1, 2, 3, 4, 5, 6, 7, 8, 9]) c"

definition is_digit :: "char \<Rightarrow> bool" where
  "is_digit c = (digit_value c \<noteq> None)"

text \<open>\<open>s.isdigit()\<close>\<close>

definition str_isdigit :: "string \<Rightarrow> bool" where
  "str_isdigit s = (s \<noteq> [] \<and> list_all is_digit s)"

definition nat_of_digits :: "string \<Rightarrow> nat" where
  "nat_of_digits s = foldl (\<lambda>n c. 10 * n + (case digit_value c of Some d \<Rightarrow> d | None \<Rightarrow> 0)) 0 s"

text \<open>
  The digits of an \<open>int(...)\<close> literal: a non-empty run of digits in which single
  underscores may stand between two digits.
\<close>

fun digits_ok :: "bool \<Rightarrow> string \<Rightarrow> bool" where
  "digits_ok after_digit [] = after_digit"
| "digits_ok after_digit (c # cs) =
     (if is_digit c then digits_ok True cs
      else if c = CHR ''_'' then after_digit \<and> digits_ok False cs
      else False)"

definition digit_char :: "nat \<Rightarrow> char" where
  "digit_char n = ''0123456789abcdef'' ! n"

fun string_of_nat :: "nat \<Rightarrow> string" where
  "string_of_nat n =
     (if n < 10 then [digit_char n] else string_of_nat (n div 10) @ [digit_char (n mod 10)])"

declare string_of_nat.simps [simp del]

definition string_of_int :: "int \<Rightarrow> string" where
  "string_of_int i = (if i < 0 then CHR ''-'' # string_of_nat (nat (- i)) else string_of_nat (nat i))"

subsection \<open>\<open>repr\<close> and \<open>str\<close>\<close>

text \<open>
  \<open>"{}".format(v)\<close> inserts \<open>str(v)\<close>: the string itself, or the \<open>repr\<close> of any other value.
  The \<open>repr\<close> of a string picks the quote as CPython does and escapes the backslash, the
  quote and the control characters.
\<close>

definition repr_char :: "char \<Rightarrow> char \<Rightarrow> string" where
  "repr_char q c =
     (if c = CHR 0x5C then [CHR 0x5C, CHR 0x5C]
      else if c = q then [CHR 0x5C, q]
      else if c = CHR 0x09 then [CHR 0x5C, CHR ''t'']
      else if c = CHR 0x0A then [CHR 0x5C, CHR ''n'']
      else if c = CHR 0x0D then [CHR 0x5C, CHR ''r'']
      else if (of_char c :: nat) < 32 \<or> c = CHR 0x7F
        then [CHR 0x5C, CHR ''x'', digit_char ((of_char c :: nat) div 16),
              digit_char ((of_char c :: nat) mod 16)]
      else [c])"

definition repr_str :: "string \<Rightarrow> string" where
  "repr_str s =
     (let q = (if CHR 0x27 \<in> set s \<and> CHR 0x22 \<notin> set s then CHR 0x22 else CHR 0x27)
      in [q] @ concat (map (repr_char q) s) @ [q])"

primrec py_repr :: "pyval \<Rightarrow> string" where
  "py_repr PNone = ''None''"
| "py_repr (PBool b) = (if b then ''True'' else ''False'')"
| "py_repr (PInt i) = string_of_int i"
| "py_repr (PStr s) = repr_str s"
| "py_repr (PList xs) = ''['' @ str_join '', '' (map py_repr xs) @ '']''"
| "py_repr (PDict d) =
     ''{'' @ str_join '', '' (map (\<lambda>p. fst p @ '': '' @ snd p) (map (map_prod py_repr py_repr) d)) @ ''}''"

definition py_str :: "pyval \<Rightarrow> string" where
  "py_str v = (case v of PStr s \<Rightarrow> s | _ \<Rightarrow> py_repr v)"

text \<open>
  \<open>int(v)\<close>: a number is taken as it is, a string is parsed (surrounding whitespace, an
  optional sign, decimal digits), anything else is a \<open>TypeError\<close>.  Around the literal
  \<open>int\<close> skips the blank and the characters \<open>0x09\<close> to \<open>0x0D\<close> only: the separators \<open>0x1C\<close>
  to \<open>0x1F\<close>, at which \<open>split\<close> cuts, make the literal invalid.
\<close>

definition is_int_space :: "char \<Rightarrow> bool" where
  "is_int_space c = (c \<in> set [CHR '' '', CHR 0x09, CHR 0x0A, CHR 0x0B, CHR 0x0C, CHR 0x0D])"

definition int_of_str :: "string \<Rightarrow> pyerror + int" where
  "int_of_str s =
     (let t = rev (dropWhile is_int_space (rev (dropWhile is_int_space s)));
          neg = (case t of c # _ \<Rightarrow> c = CHR ''-'' | [] \<Rightarrow> False);
          body = (case t of c # cs \<Rightarrow> if c = CHR ''-'' \<or> c = CHR ''+'' then cs else t | [] \<Rightarrow> [])
      in if digits_ok False body
         then (let n = int (nat_of_digits (str_remove_char CHR ''_'' body))
               in Inr (if neg then - n else n))
         else Inl (ValueError (''invalid literal for int() with base 10: '' @ repr_str s)))"

fun py_int :: "pyval \<Rightarrow> pyerror + int" where
  "py_int (PInt i) = Inr i"
| "py_int (PBool b) = Inr (if b then 1 else 0)"
| "py_int (PStr s) = int_of_str s"
| "py_int PNone = Inl TypeError"
| "py_int (PList xs) = Inl TypeError"
| "py_int (PDict d) = Inl TypeError"

subsection \<open>Mappings\<close>

text \<open>
  \<open>d[k] = v\<close> replaces the value of an existing key where it stands and appends a new key
  (\<open>AList.update\<close>); \<open>d.pop(k, default)\<close>, \<open>d.setdefault(k, default)\<close> and \<open>d.update(e)\<close>
  return the changed mapping next to their result, since the Python mutates in place.
\<close>

definition dict_get :: "pydict \<Rightarrow> string \<Rightarrow> pyval \<Rightarrow> pyval" where
  "dict_get d k dflt = (case map_of d (PStr k) of None \<Rightarrow> dflt | Some v \<Rightarrow> v)"

definition dict_pop :: "pydict \<Rightarrow> string \<Rightarrow> pyval \<Rightarrow> pyval \<times> pydict" where
  "dict_pop d k dflt =
     (case map_of d (PStr k) of
        None \<Rightarrow> (dflt, d)
      | Some v \<Rightarrow> (v, AList.delete (PStr k) d))"

definition dict_setdefault :: "pydict \<Rightarrow> string \<Rightarrow> pyval \<Rightarrow> pyval \<times> pydict" where
  "dict_setdefault d k dflt =
     (case map_of d (PStr k) of
        None \<Rightarrow> (dflt, d @ [(PStr k, dflt)])
      | Some v \<Rightarrow> (v, d))"

definition dict_set :: "pydict \<Rightarrow> string \<Rightarrow> pyval \<Rightarrow> pydict" where
  "dict_set d k v = AList.update (PStr k) v d"

definition dict_update :: "pydict \<Rightarrow> pydict \<Rightarrow> pydict" where
  "dict_update d e = fold (\<lambda>(k, v) acc. AList.update k v acc) e d"

text \<open>\<open>{key: val for key, val in d.items() if val}\<close>\<close>

definition drop_falsy :: "pydict \<Rightarrow> pydict" where
  "drop_falsy d = filter (\<lambda>(k, v). truthy v) d"

text \<open>\<open>obj.get(k, default)\<close> on a value that need not be a mapping.\<close>

fun py_get :: "pyval \<Rightarrow> string \<Rightarrow> pyval \<Rightarrow> pyerror + pyval" where
  "py_get (PDict d) k dflt = Inr (dict_get d k dflt)"
| "py_get PNone k dflt = Inl AttributeError"
| "py_get (PBool b) k dflt = Inl AttributeError"
| "py_get (PInt i) k dflt = Inl AttributeError"
| "py_get (PStr s) k dflt = Inl AttributeError"
| "py_get (PList xs) k dflt = Inl AttributeError"

text \<open>\<open>obj.setdefault(k, default)\<close> on a value that need not be a mapping.\<close>

fun py_setdefault :: "pyval \<Rightarrow> string \<Rightarrow> pyval \<Rightarrow> pyerror + (pyval \<times> pydict)" where
  "py_setdefault (PDict d) k dflt = Inr (dict_setdefault d k dflt)"
| "py_setdefault PNone k dflt = Inl AttributeError"
| "py_setdefault (PBool b) k dflt = Inl AttributeError"
| "py_setdefault (PInt i) k dflt = Inl AttributeError"
| "py_setdefault (PStr s) k dflt = Inl AttributeError"
| "py_setdefault (PList xs) k dflt = Inl AttributeError"

text \<open>
  Iterating a value (\<open>for x in v\<close>): the elements of a sequence, the keys of a mapping, the
  one-character pieces of a string; anything else is not iterable.
\<close>

fun py_iter :: "pyval \<Rightarrow> pyerror + pyval list" where
  "py_iter (PList xs) = Inr xs"
| "py_iter (PDict d) = Inr (map fst d)"
| "py_iter (PStr s) = Inr (map (\<lambda>c. PStr [c]) s)"
| "py_iter PNone = Inl TypeError"
| "py_iter (PBool b) = Inl TypeError"
| "py_iter (PInt i) = Inl TypeError"

text \<open>Unpacking into two targets, as in \<open>for key, value in ...\<close>.\<close>

definition unpack2 :: "pyval \<Rightarrow> pyerror + (pyval \<times> pyval)" where
  "unpack2 v =
     bindE (py_iter v) (\<lambda>xs.
       case xs of
         [a, b] \<Rightarrow> Inr (a, b)
       | [] \<Rightarrow> Inl (ValueError ''not enough values to unpack (expected 2, got 0)'')
       | [a] \<Rightarrow> Inl (ValueError ''not enough values to unpack (expected 2, got 1)'')
       | _ \<Rightarrow> Inl (ValueError ''too many values to unpack (expected 2)''))"

fun hashable :: "pyval \<Rightarrow> bool" where
  "hashable (PList xs) = False"
| "hashable (PDict d) = False"
| "hashable v = True"

text \<open>
  The argument of \<open>dict.update\<close>: a mapping, or a sequence whose elements each have two
  items, a hashable key and a value.
\<close>

fun update_pairs :: "nat \<Rightarrow> pyval list \<Rightarrow> pyerror + pydict" where
  "update_pairs i [] = Inr []"
| "update_pairs i (x # xs) =
     (case py_iter x of
        Inl e \<Rightarrow> Inl TypeError
      | Inr [k, v] \<Rightarrow>
          (if hashable k
           then (case update_pairs (Suc i) xs of Inl e \<Rightarrow> Inl e | Inr ps \<Rightarrow> Inr ((k, v) # ps))
           else Inl TypeError)
      | Inr ys \<Rightarrow>
          Inl (ValueError (''dictionary update sequence element #'' @ string_of_nat i
                 @ '' has length '' @ string_of_nat (length ys) @ ''; 2 is required'')))"

definition update_arg :: "pyval \<Rightarrow> pyerror + pydict" where
  "update_arg v = (case v of PDict d \<Rightarrow> Inr d | _ \<Rightarrow> bindE (py_iter v) (update_pairs 0))"

section \<open>The adaptor's data\<close>

text \<open>The module constants of \<^verbatim>\<open>toscakubed.py\<close>.\<close>

definition DOCKER_CONTAINER :: string where
  "DOCKER_CONTAINER = ''tosca.nodes.MiCADO.Container.Application.Docker''"

definition CONTAINER_VOLUME :: string where
  "CONTAINER_VOLUME = ''tosca.nodes.MiCADO.Container.Volume''"

definition VOLUME_ATTACHMENT :: string where
  "VOLUME_ATTACHMENT = ''tosca.relationships.AttachesTo''"

definition KUBERNETES_INTERFACE :: string where
  "KUBERNETES_INTERFACE = ''Kubernetes''"

definition SUPPORTED_WORKLOADS :: "string list" where
  "SUPPORTED_WORKLOADS = [''Pod'', ''Job'', ''Deployment'', ''StatefulSet'', ''DaemonSet'']"

definition SWARM_PROPERTIES :: "string list" where
  "SWARM_PROPERTIES = [''expose'']"

definition POD_SPEC_FIELDS :: "string list" where
  "POD_SPEC_FIELDS =
     [''activeDeadlineSeconds'', ''affinity'', ''automountServiceAccountToken'', ''dnsConfig'',
      ''dnsPolicy'', ''enableServiceLinks'', ''hostAliases'', ''hostIPC'', ''hostNetwork'',
      ''hostPID'', ''hostname'', ''imagePullSecrets'', ''initContainers'', ''nodeName'',
      ''nodeSelector'', ''priority'', ''priorityClassName'', ''readinessGates'',
      ''restartPolicy'', ''runtimeClassName'', ''schedulerName'', ''securityContext'',
      ''serviceAccount'', ''serviceAccountName'', ''shareProcessNamespace'', ''subdomain'',
      ''terminationGracePeriodSeconds'', ''tolerations'', ''volumes'']"

text \<open>
  What the parser hands over.  An interface operation has the type of its interface, its
  name and its inputs (a mapping, or nothing); a node has a name, a type, its operations,
  its resolved property values, its raw template (a mapping, read for the artifacts), the
  names of its related nodes and its requirement records (one mapping each); a repository
  has a name and a location.
\<close>

record operation =
  op_type :: string
  op_name :: string
  op_inputs :: "pydict option"

record node =
  node_name :: string
  node_type :: string
  node_interfaces :: "operation list"
  node_properties :: "(string \<times> pyval) list"
  entity_tpl :: pydict
  related_nodes :: "string list"
  requirements :: "pydict list"

record repository =
  repo_name :: string
  reposit :: string

text \<open>\<open>node.get_property_value(k)\<close>: the value, or \<open>None\<close> for a property the node lacks.\<close>

definition get_property_value :: "node \<Rightarrow> string \<Rightarrow> pyval" where
  "get_property_value n k = (case map_of (node_properties n) k of None \<Rightarrow> PNone | Some v \<Rightarrow> v)"

text \<open>
  The adaptor object: the fields that \<open>translate\<close> reads and writes.  \<open>volumes\<close> is the
  table from the name of a volume node to the name of its claim.
\<close>

record adaptor =
  short_id :: string
  status :: string
  manifests :: "pyval list"
  services :: "pyval list"
  volumes :: pydict

section \<open>Ports and services\<close>

text \<open>\<open>_get_api\<close>: the table is searched for a kind that matches without regard to case.\<close>

definition api_versions :: "(string \<times> string) list" where
  "api_versions =
     [(''DaemonSet'', ''apps/v1''), (''Deployment'', ''apps/v1''), (''Job'', ''batch/v1''),
      (''Pod'', ''v1''), (''ReplicaSet'', ''apps/v1''), (''StatefulSet'', ''apps/v1''),
      (''Ingress'', ''extensions/v1beta1''), (''Service'', ''v1''),
      (''PersistentVolume'', ''v1''), (''PersistentVolumeClaim'', ''v1''), (''Volume'', ''v1''),
      (''Namespace'', ''v1'')]"

definition get_api :: "pyval \<Rightarrow> pyerror + string" where
  "get_api kind =
     (case kind of
        PStr k \<Rightarrow>
          (case filter (\<lambda>(resource, api). str_lower k = str_lower resource) api_versions of
             [] \<Rightarrow> Inr ''unknown''
           | (resource, api) # _ \<Rightarrow> Inr api)
      | _ \<Rightarrow> Inl AttributeError)"

text \<open>
  \<open>_build_port_spec\<close>.  The result is \<open>None\<close> (the function's bare \<open>return\<close>) or the port
  spec.  The calls of the logger have no effect on any value and are not part of the model.
\<close>

definition build_port_spec :: "pyval \<Rightarrow> string \<Rightarrow> pyerror + pydict option" where
  "build_port_spec port nname =
     bindE (py_get port ''target'' PNone) (\<lambda>target_alt.
     bindE (py_get port ''targetPort'' target_alt) (\<lambda>target.
     bindE (py_get port ''published'' target) (\<lambda>published.
     bindE (py_get port ''port'' published) (\<lambda>port_val.
     bindE (py_int port_val) (\<lambda>publish.
     if publish = 0 \<and> \<not> truthy target then Inr None
     else
       let target = (case target of
                       PStr s \<Rightarrow> if str_isdigit s then PInt (int (nat_of_digits s)) else target
                     | _ \<Rightarrow> target)
       in
       bindE (py_get port ''clusterIP'' PNone) (\<lambda>cluster_ip.
       bindE (if truthy cluster_ip
              then (case cluster_ip of
                      PStr s \<Rightarrow>
                        (case str_split_on CHR ''.'' s of
                           [] \<Rightarrow> Inl IndexError
                         | first # rest \<Rightarrow>
                             if first = ''10''
                             then (case rest of
                                     [] \<Rightarrow> Inl IndexError
                                   | second # _ \<Rightarrow>
                                       bindE (int_of_str second) (\<lambda>octet.
                                         if 96 \<le> octet \<and> octet \<le> 111 then Inr cluster_ip
                                         else Inr cluster_ip))
                             else if first = ''None'' then Inr (PStr ''None'')
                             else Inr cluster_ip)
                    | _ \<Rightarrow> Inl AttributeError)
              else Inr cluster_ip) (\<lambda>cluster_ip.
       bindE (py_get port ''protocol'' (PStr ''TCP'')) (\<lambda>protocol_val.
       bindE (case protocol_val of PStr s \<Rightarrow> Inr (str_upper s) | _ \<Rightarrow> Inl AttributeError)
         (\<lambda>protocol.
       bindE (py_get port ''name'' (PStr (py_str target @ ''-'' @ str_lower protocol))) (\<lambda>name.
       bindE (py_get port ''mode'' PNone) (\<lambda>mode.
       bindE (py_get port ''type'' mode) (\<lambda>port_type.
       bindE (py_get port ''metadata'' PNone) (\<lambda>metadata.
       bindE (py_get port ''nodePort'' PNone) (\<lambda>node_port.
       bindE (if truthy node_port
              then bindE (py_int node_port) (\<lambda>n.
                     Inr (py_or port_type (PStr ''NodePort''),
                          if 30000 > n \<and> n > 32767 then PNone else node_port))
              else Inr (port_type, node_port)) (\<lambda>(port_type, node_port).
       let port_type = (if port_type = PStr ''host'' then PStr ''NodePort''
                        else if port_type = PStr ''ingress'' \<or> \<not> truthy port_type
                          then PStr ''ClusterIP''
                        else port_type);
           port_spec = [(PStr ''name'', name),
                        (PStr ''targetPort'', target),
                        (PStr ''port'', PInt publish),
                        (PStr ''protocol'', PStr protocol),
                        (PStr ''type'', port_type),
                        (PStr ''nodePort'', node_port),
                        (PStr ''metadata'', metadata),
                        (PStr ''clusterIP'', cluster_ip)]
       in Inr (Some (drop_falsy port_spec)))))))))))))))))"

text \<open>\<open>d.setdefault(k, []).append(v)\<close>\<close>

definition setdefault_append :: "pydict \<Rightarrow> string \<Rightarrow> pyval \<Rightarrow> pyerror + pydict" where
  "setdefault_append d k v =
     (case map_of d (PStr k) of
        None \<Rightarrow> Inr (d @ [(PStr k, PList [v])])
      | Some (PList xs) \<Rightarrow> Inr (dict_set d k (PList (xs @ [v])))
      | Some _ \<Rightarrow> Inl AttributeError)"

text \<open>
  \<open>_get_service_info\<close>: a port with a \<open>containerPort\<close> goes back onto the container, any
  other becomes a port spec.  The container is changed in place, so it is returned too.
\<close>

fun get_service_info_loop ::
  "pyval list \<Rightarrow> string \<Rightarrow> pydict \<Rightarrow> pydict list \<Rightarrow> pyerror + (pydict list \<times> pydict)" where
  "get_service_info_loop [] nname container port_list = Inr (port_list, container)"
| "get_service_info_loop (port # rest) nname container port_list =
     (case py_get port ''containerPort'' PNone of
        Inl e \<Rightarrow> Inl e
      | Inr container_port \<Rightarrow>
          if truthy container_port
          then (case setdefault_append container ''ports'' port of
                  Inl e \<Rightarrow> Inl e
                | Inr container' \<Rightarrow> get_service_info_loop rest nname container' port_list)
          else (case build_port_spec port nname of
                  Inl e \<Rightarrow> Inl e
                | Inr None \<Rightarrow> get_service_info_loop rest nname container port_list
                | Inr (Some port_spec) \<Rightarrow>
                    get_service_info_loop rest nname container
                      (if port_spec \<noteq> [] then port_list @ [port_spec] else port_list)))"

definition get_service_info :: "pydict \<Rightarrow> string \<Rightarrow> pyerror + (pydict list \<times> pydict)" where
  "get_service_info container nname =
     (let (ports, container) = dict_pop container ''ports'' PNone
      in if truthy ports
         then bindE (py_iter ports) (\<lambda>ps. get_service_info_loop ps nname container [])
         else Inr ([], container))"

text \<open>\<open>_build_service\<close>: the manifest and the service info, or \<open>(None, None)\<close>.\<close>

definition build_service ::
  "pyval \<Rightarrow> pyval \<Rightarrow> pydict \<Rightarrow> string \<Rightarrow> pydict \<Rightarrow> pyerror + (pyval \<times> pyval)" where
  "build_service service_name service resource nname inputs =
     bindE (py_get service ''ports'' PNone) (\<lambda>ports.
     if \<not> truthy ports then Inr (PNone, PNone)
     else
       let metadata = dict_get resource ''metadata'' (PDict []) in
       bindE (py_get metadata ''namespace'' PNone) (\<lambda>resource_namespace.
       bindE (py_get metadata ''labels'' PNone) (\<lambda>resource_labels.
       let metadata = dict_get inputs ''metadata'' (PDict []) in
       bindE (py_get metadata ''labels'' (PDict [(PStr ''run'', PStr nname)])) (\<lambda>pod_labels.
       bindE (py_get service ''metadata'' (PDict [])) (\<lambda>metadata.
       bindE (py_setdefault metadata ''name'' service_name) (\<lambda>(_, metadata).
       let (_, metadata) = dict_setdefault metadata ''namespace'' resource_namespace;
           (_, metadata) = dict_setdefault metadata ''labels'' resource_labels;
           namespace = py_or (dict_get metadata ''namespace'' PNone) (PStr ''default'');
           service_info = PDict [(PStr ''node'', PStr nname),
                                 (PStr ''name'', service_name),
                                 (PStr ''namespace'', namespace)];
           metadata = drop_falsy metadata
       in
       bindE (py_get service ''type'' PNone) (\<lambda>port_type.
       bindE (py_get service ''clusterIP'' PNone) (\<lambda>cluster_ip.
       bindE (py_iter ports) (\<lambda>spec_ports.
       let spec = [(PStr ''ports'', PList spec_ports), (PStr ''selector'', pod_labels)];
           spec = (if port_type \<noteq> PStr ''ClusterIP''
                   then snd (dict_setdefault spec ''type'' port_type) else spec);
           spec = (if truthy cluster_ip
                   then snd (dict_setdefault spec ''clusterIP'' cluster_ip) else spec);
           manifest = PDict [(PStr ''apiVersion'', PStr ''v1''),
                             (PStr ''kind'', PStr ''Service''),
                             (PStr ''metadata'', PDict metadata),
                             (PStr ''spec'', PDict spec)]
       in Inr (manifest, service_info))))))))))"

section \<open>The container spec\<close>

text \<open>\<open>_get_image\<close>; its first parameter is the node's raw template.\<close>

definition get_image :: "pydict \<Rightarrow> repository list \<Rightarrow> pyerror + pyval" where
  "get_image tpl repositories =
     bindE (py_get (dict_get tpl ''artifacts'' (PDict [])) ''image'' (PDict [])) (\<lambda>details.
     bindE (py_get details ''file'' PNone) (\<lambda>image.
     bindE (py_get details ''repository'' PNone) (\<lambda>repo.
     if \<not> truthy image \<or> \<not> truthy repo \<or> repositories = [] then Inr (PStr [])
     else (case repo of
             PStr r \<Rightarrow>
               if str_remove_char CHR ''_'' (str_remove_char CHR ''-''
                    (str_remove_char CHR '' '' (str_lower r))) \<noteq> ''dockerhub''
               then (case filter (\<lambda>x. repo_name x = r) repositories of
                       [] \<Rightarrow> Inr image
                     | x # _ \<Rightarrow>
                         (case image of
                            PStr file \<Rightarrow>
                              Inr (PStr (str_join ''/'' [str_strip_char CHR ''/'' (reposit x), file]))
                          | _ \<Rightarrow> Inl TypeError))
               else Inr image
           | _ \<Rightarrow> Inl AttributeError))))"

text \<open>\<open>v.split()\<close> on a value that need not be a string.\<close>

definition py_split :: "pyval \<Rightarrow> pyerror + pyval" where
  "py_split v = (case v of PStr s \<Rightarrow> Inr (PList (map PStr (str_split_ws s))) | _ \<Rightarrow> Inl AttributeError)"

text \<open>The loop \<open>for key, value in docker_env: env.append({"name": key, "value": value})\<close>.\<close>

fun env_loop :: "pyval list \<Rightarrow> pyval list \<Rightarrow> pyerror + pyval list" where
  "env_loop [] env = Inr env"
| "env_loop (x # xs) env =
     (case unpack2 x of
        Inl e \<Rightarrow> Inl e
      | Inr (key, val) \<Rightarrow> env_loop xs (env @ [PDict [(PStr ''name'', key), (PStr ''value'', val)]]))"

text \<open>
  \<open>_get_container\<close>.  The Python changes \<open>properties\<close> and \<open>inputs\<close> in place and returns a
  fresh mapping; the model returns all three: the container spec, \<open>properties\<close> and \<open>inputs\<close>
  as the call leaves them.  The body is taken in the three parts that its comments mark:
  the image and the swarm-only keys in \<open>get_container\<close> itself, then
  ``Translate common properties'' and ``Translate other properties''.
\<close>

definition translate_common_properties :: "node \<Rightarrow> pydict \<Rightarrow> pyerror + pydict" where
  "translate_common_properties nd properties =
     (let (container_name, properties) =
             dict_pop properties ''container_name'' (PStr (node_name nd));
          (_, properties) = dict_setdefault properties ''name'' container_name;
          (entrypoint, properties) = dict_pop properties ''entrypoint'' (PStr [])
      in
      bindE (py_split entrypoint) (\<lambda>command.
      let (_, properties) = dict_setdefault properties ''command'' command;
          (cmd, properties) = dict_pop properties ''cmd'' (PStr [])
      in
      bindE (py_split cmd) (\<lambda>args.
      let (_, properties) = dict_setdefault properties ''args'' args;
          (docker_env, properties) = dict_pop properties ''environment'' (PDict [])
      in
      bindE (py_iter docker_env) (\<lambda>env_items.
      bindE (env_loop env_items []) (\<lambda>env.
      let (_, properties) = dict_setdefault properties ''env'' (PList env)
      in Inr properties)))))"

definition translate_other_properties :: "pydict \<Rightarrow> pydict \<Rightarrow> pyerror + (pydict \<times> pydict)" where
  "translate_other_properties properties inputs =
     (let (docker_labels, properties) = dict_pop properties ''labels'' PNone
      in
      bindE (if truthy docker_labels
             then (let (metadata, inputs) = dict_setdefault inputs ''metadata'' (PDict []) in
                   bindE (py_setdefault metadata ''labels'' (PDict [])) (\<lambda>(labels, metadata).
                     case labels of
                       PDict l \<Rightarrow>
                         bindE (update_arg docker_labels) (\<lambda>new.
                           Inr (dict_set inputs ''metadata''
                                  (PDict (dict_set metadata ''labels'' (PDict (dict_update l new))))))
                     | _ \<Rightarrow> Inl AttributeError))
             else Inr inputs) (\<lambda>inputs.
      let (docker_grace, properties) = dict_pop properties ''stop_grace_period'' PNone;
          inputs = (if truthy docker_grace
                    then snd (dict_setdefault inputs ''terminationGracePeriodSeconds'' docker_grace)
                    else inputs);
          (docker_priv, properties) = dict_pop properties ''privileged'' PNone
      in
      bindE (if truthy docker_priv
             then (let (context, properties) =
                         dict_setdefault properties ''securityContext'' (PDict []) in
                   bindE (py_setdefault context ''privileged'' docker_priv) (\<lambda>(_, context).
                     Inr (dict_set properties ''securityContext'' (PDict context))))
             else Inr properties) (\<lambda>properties.
      let (docker_pid, properties) = dict_pop properties ''pid'' PNone;
          inputs = (if docker_pid = PStr ''host''
                    then snd (dict_setdefault inputs ''hostPID'' (PBool True)) else inputs);
          (docker_netmode, properties) = dict_pop properties ''network_mode'' PNone;
          inputs = (if docker_netmode = PStr ''host''
                    then snd (dict_setdefault inputs ''hostNetwork'' (PBool True)) else inputs);
          (stdin_open, properties) = dict_pop properties ''stdin_open'' PNone;
          (_, properties) = dict_setdefault properties ''stdin'' stdin_open;
          (healthcheck, properties) = dict_pop properties ''healthcheck'' PNone;
          (_, properties) = dict_setdefault properties ''livenessProbe'' healthcheck
      in Inr (properties, inputs))))"

definition get_container ::
  "node \<Rightarrow> pydict \<Rightarrow> repository list \<Rightarrow> pydict \<Rightarrow> pyerror + (pydict \<times> pydict \<times> pydict)" where
  "get_container nd properties repositories inputs =
     bindE (get_image (entity_tpl nd) repositories) (\<lambda>image.
     if \<not> truthy image
     then Inl (ValueError (''No image specified for '' @ node_name nd @ ''!''))
     else
       let (_, properties) = dict_setdefault properties ''image'' image;
           properties = fold (\<lambda>key p. snd (dict_pop p key PNone)) SWARM_PROPERTIES properties
       in
       bindE (translate_common_properties nd properties) (\<lambda>properties.
       bindE (translate_other_properties properties inputs) (\<lambda>(properties, inputs).
       Inr (drop_falsy properties, properties, inputs))))"

text \<open>\<open>_separate_data\<close>: the named keys are moved out of \<open>container\<close>.\<close>

definition separate_data :: "string list \<Rightarrow> pydict \<Rightarrow> pydict \<times> pydict" where
  "separate_data key_names container =
     fold (\<lambda>x (data, c).
             case map_of c (PStr x) of
               None \<Rightarrow> (data, c)
             | Some v \<Rightarrow> (dict_set data x v, AList.delete (PStr x) c))
          key_names ([], container)"

section \<open>The adaptor's methods\<close>

text \<open>
  A method that can raise after it has changed the adaptor returns the adaptor next to its
  outcome, so that the state at the \<open>raise\<close> is part of the model: \<open>(Inl e, self)\<close> or
  \<open>(Some e, self)\<close> is the exception \<open>e\<close> leaving the adaptor as \<open>self\<close>.
\<close>

text \<open>
  \<open>_get_resource\<close>.  The keys it pops are gone from \<open>inputs\<close> afterwards, so \<open>inputs\<close> is
  returned with the resource.
\<close>

definition get_resource ::
  "adaptor \<Rightarrow> pyval \<Rightarrow> pydict \<Rightarrow> string \<Rightarrow> pyerror + (pydict \<times> pydict)" where
  "get_resource self name inputs default_kind =
     (let (kind, inputs) = dict_pop inputs ''kind'' (PStr default_kind) in
      bindE (get_api kind) (\<lambda>api.
      let (api_version, inputs) = dict_pop inputs ''apiVersion'' (PStr api);
          (metadata, inputs) = dict_pop inputs ''metadata'' (PDict []);
          (name_val, inputs) = dict_pop inputs ''name'' name
      in
      bindE (py_setdefault metadata ''name'' name_val) (\<lambda>(_, metadata).
      let (labels_val, inputs) = dict_pop inputs ''labels'' (PDict []);
          (_, metadata) = dict_setdefault metadata ''labels'' labels_val;
          (labels, metadata) = dict_setdefault metadata ''labels'' (PDict [])
      in
      bindE (py_setdefault labels ''app'' (PStr (short_id self))) (\<lambda>(_, labels).
      let metadata = dict_set metadata ''labels'' (PDict labels);
          resource = [(PStr ''apiVersion'', api_version),
                      (PStr ''kind'', kind),
                      (PStr ''metadata'', PDict metadata)]
      in Inr (resource, inputs)))))"

text \<open>
  \<open>_get_volumes\<close>: the inner loop over the requirements collects the mounts of one related
  node, the outer loop goes through the related nodes.
\<close>

fun volume_mount_loop :: "string \<Rightarrow> pydict list \<Rightarrow> pyval list \<Rightarrow> pyerror + pyval list" where
  "volume_mount_loop rname [] volume_mount_list = Inr volume_mount_list"
| "volume_mount_loop rname (requirement # rest) volume_mount_list =
     (case
        (let volume = dict_get requirement ''volume'' (PDict []) in
         bindE (py_get volume ''relationship'' (PDict [])) (\<lambda>rel.
         bindE (py_get rel ''type'' PNone) (\<lambda>relationship.
         bindE (py_get rel ''properties'' (PDict [])) (\<lambda>props.
         bindE (py_get props ''location'' PNone) (\<lambda>path.
         if truthy path \<and> relationship = PStr VOLUME_ATTACHMENT
         then bindE (py_get volume ''node'' PNone) (\<lambda>target.
                if target = PStr rname
                then Inr (volume_mount_list
                            @ [PDict [(PStr ''name'', PStr rname), (PStr ''mountPath'', path)]])
                else Inr volume_mount_list)
         else Inr volume_mount_list)))))
      of Inl e \<Rightarrow> Inl e
       | Inr volume_mount_list' \<Rightarrow> volume_mount_loop rname rest volume_mount_list')"

fun get_volumes_loop ::
  "adaptor \<Rightarrow> string list \<Rightarrow> pydict list \<Rightarrow> pyval list \<Rightarrow> pyval list
     \<Rightarrow> pyerror + (pyval list \<times> pyval list)" where
  "get_volumes_loop self [] reqs vols vol_mounts = Inr (vols, vol_mounts)"
| "get_volumes_loop self (rname # rest) reqs vols vol_mounts =
     (let pvc_name = dict_get (volumes self) rname PNone in
      if truthy pvc_name
      then (let pvc = PDict [(PStr ''claimName'', pvc_name)];
                volume_spec = PDict [(PStr ''name'', PStr rname),
                                     (PStr ''persistentVolumeClaim'', pvc)]
            in case volume_mount_loop rname reqs [] of
                 Inl e \<Rightarrow> Inl e
               | Inr volume_mount_list \<Rightarrow>
                   if volume_mount_list \<noteq> []
                   then get_volumes_loop self rest reqs (vols @ [volume_spec])
                          (vol_mounts @ volume_mount_list)
                   else get_volumes_loop self rest reqs vols vol_mounts)
      else get_volumes_loop self rest reqs vols vol_mounts)"

definition get_volumes :: "adaptor \<Rightarrow> node \<Rightarrow> pyerror + (pyval list \<times> pyval list)" where
  "get_volumes self container_node =
     get_volumes_loop self (related_nodes container_node) (requirements container_node) [] []"

text \<open>
  \<open>_create_persistent_volume\<close> and \<open>_create_persistent_volume_claim\<close> begin with the same two
  statements, which differ in the suffix of the default name only: the name is taken from
  the inputs or made from the given name, and it becomes the label \<open>volume\<close> unless the
  inputs have one.  They are \<open>volume_name_and_labels\<close>.  In both methods
  \<open>manifest.setdefault("spec", inputs)\<close> then makes what is left of \<open>inputs\<close> the spec, which
  the following lines fill in.
\<close>

definition volume_name_and_labels :: "pyval \<Rightarrow> pydict \<Rightarrow> string \<Rightarrow> pyerror + (pyval \<times> pydict)" where
  "volume_name_and_labels name inputs suffix =
     bindE (py_get (dict_get inputs ''metadata'' (PDict [])) ''name'' (dict_get inputs ''name'' PNone))
       (\<lambda>given.
     let name = py_or given (PStr (py_str name @ suffix));
         (metadata, inputs) = dict_setdefault inputs ''metadata'' (PDict [])
     in
     bindE (py_setdefault metadata ''labels'' (PDict [])) (\<lambda>(labels, metadata).
     bindE (py_setdefault labels ''volume'' name) (\<lambda>(_, labels).
     Inr (name, dict_set inputs ''metadata'' (PDict (dict_set metadata ''labels'' (PDict labels)))))))"

definition create_persistent_volume ::
  "adaptor \<Rightarrow> pyval \<Rightarrow> pydict \<Rightarrow> pyval \<Rightarrow> (pyerror + pyval) \<times> adaptor" where
  "create_persistent_volume self name inputs size_val =
     (case
        bindE (volume_name_and_labels name inputs ''-pv'') (\<lambda>(name, inputs).
        bindE (get_resource self name inputs ''PersistentVolume'') (\<lambda>(manifest, inputs).
        bindE (py_get (dict_get manifest ''metadata'' (PDict [])) ''labels'' (PDict [])) (\<lambda>labels.
        let spec = inputs;
            (capacity, spec) = dict_setdefault spec ''capacity'' (PDict [])
        in
        bindE (py_setdefault capacity ''storage'' size_val) (\<lambda>(_, capacity).
        bindE (setdefault_append (dict_set spec ''capacity'' (PDict capacity)) ''accessModes''
                 (PStr ''ReadWriteMany'')) (\<lambda>spec.
        let (_, spec) = dict_setdefault spec ''persistentVolumeReclaimPolicy'' (PStr ''Retain'')
        in Inr (PDict (manifest @ [(PStr ''spec'', PDict spec)]), labels))))))
      of Inl e \<Rightarrow> (Inl e, self)
       | Inr (manifest, labels) \<Rightarrow>
           (Inr labels, self\<lparr>manifests := manifests self @ [manifest]\<rparr>))"

text \<open>\<open>_create_persistent_volume_claim\<close>\<close>

definition create_persistent_volume_claim ::
  "adaptor \<Rightarrow> pyval \<Rightarrow> pydict \<Rightarrow> pyval \<Rightarrow> pyval \<Rightarrow> (pyerror + pyval) \<times> adaptor" where
  "create_persistent_volume_claim self name inputs labels size_val =
     (case
        bindE (volume_name_and_labels name inputs ''-pvc'') (\<lambda>(name, inputs).
        bindE (get_resource self name inputs ''PersistentVolumeClaim'') (\<lambda>(manifest, inputs).
        let spec = inputs;
            (resources, spec) = dict_setdefault spec ''resources'' (PDict [])
        in
        bindE (py_setdefault resources ''requests'' (PDict [])) (\<lambda>(requests, resources).
        bindE (py_setdefault requests ''storage'' size_val) (\<lambda>(_, requests).
        bindE (setdefault_append
                 (dict_set spec ''resources'' (PDict (dict_set resources ''requests'' (PDict requests))))
                 ''accessModes'' (PStr ''ReadWriteMany'')) (\<lambda>spec.
        let (selector, spec) = dict_setdefault spec ''selector'' (PDict [])
        in
        bindE (py_setdefault selector ''matchLabels'' labels) (\<lambda>(_, selector).
        Inr (PDict (manifest @ [(PStr ''spec'', PDict (dict_set spec ''selector'' (PDict selector)))]),
             name)))))))
      of Inl e \<Rightarrow> (Inl e, self)
       | Inr (manifest, name) \<Rightarrow>
           (Inr name, self\<lparr>manifests := manifests self @ [manifest]\<rparr>))"

text \<open>
  \<open>_get_service_manifests\<close>.  The first loop groups the port specs into \<open>services_to_build\<close>,
  a mapping from the service name to the service entry.
\<close>

fun group_ports :: "string \<Rightarrow> pydict list \<Rightarrow> (pyval \<times> pydict) list \<Rightarrow> pyerror + (pyval \<times> pydict) list" where
  "group_ports nname [] services_to_build = Inr services_to_build"
| "group_ports nname (port # rest) services_to_build =
     (case
        (let (metadata, port) = dict_pop port ''metadata'' (PDict []) in
         bindE (py_get metadata ''name'' PNone) (\<lambda>service_name.
         let (port_type, port) = dict_pop port ''type'' PNone;
             (cluster_ip, port) = dict_pop port ''clusterIP'' PNone
         in
         bindE (if \<not> truthy service_name
                then (case port_type of
                        PStr t \<Rightarrow> Inr (PStr (nname @ ''-'' @ str_lower t))
                      | _ \<Rightarrow> Inl AttributeError)
                else Inr service_name) (\<lambda>service_name.
         if \<not> hashable service_name then Inl TypeError
         else
           let service_entry = (case map_of services_to_build service_name of
                                  None \<Rightarrow> [] | Some entry \<Rightarrow> entry);
               (_, service_entry) = dict_setdefault service_entry ''type'' port_type;
               (_, service_entry) = dict_setdefault service_entry ''metadata'' metadata;
               (_, service_entry) = dict_setdefault service_entry ''clusterIP'' cluster_ip
           in
           bindE (setdefault_append service_entry ''ports'' (PDict port)) (\<lambda>service_entry.
           Inr (AList.update service_name service_entry services_to_build)))))
      of Inl e \<Rightarrow> Inl e
       | Inr services_to_build' \<Rightarrow> group_ports nname rest services_to_build')"

text \<open>
  The second loop gives one service the bare node name: the first of the four suffixed
  names that is a key of \<open>services_to_build\<close> is popped, and its entry is stored under
  the node name.
\<close>

definition service_types :: "string list" where
  "service_types = [''clusterip'', ''nodeport'', ''LoadBalancer'', ''ExternalIP'']"

fun rename_loop :: "string \<Rightarrow> string list \<Rightarrow> (pyval \<times> pydict) list \<Rightarrow> (pyval \<times> pydict) list" where
  "rename_loop nname [] services_to_build = services_to_build"
| "rename_loop nname (s_type # rest) services_to_build =
     (case map_of services_to_build (PStr (nname @ ''-'' @ s_type)) of
        None \<Rightarrow> rename_loop nname rest services_to_build
      | Some entry \<Rightarrow>
          (let popped = AList.delete (PStr (nname @ ''-'' @ s_type)) services_to_build
           in if entry \<noteq> []
              then (case map_of popped (PStr nname) of
                      None \<Rightarrow> popped @ [(PStr nname, entry)]
                    | Some _ \<Rightarrow> popped)
              else rename_loop nname rest popped))"

text \<open>The third loop builds the manifests and appends them to the adaptor's lists.\<close>

fun build_services_loop ::
  "(pyval \<times> pydict) list \<Rightarrow> pydict \<Rightarrow> string \<Rightarrow> pydict \<Rightarrow> adaptor \<Rightarrow> pyerror option \<times> adaptor" where
  "build_services_loop [] resource nname inputs self = (None, self)"
| "build_services_loop ((name, service) # rest) resource nname inputs self =
     (case build_service name (PDict service) resource nname inputs of
        Inl e \<Rightarrow> (Some e, self)
      | Inr (manifest, service_info) \<Rightarrow>
          if \<not> truthy manifest then build_services_loop rest resource nname inputs self
          else build_services_loop rest resource nname inputs
                 (self\<lparr>manifests := manifests self @ [manifest],
                       services := services self @ [service_info]\<rparr>))"

text \<open>
  The method changes \<open>container\<close> in place (the service ports are taken off it), so the
  container is the value returned here.
\<close>

definition get_service_manifests ::
  "adaptor \<Rightarrow> node \<Rightarrow> pydict \<Rightarrow> pydict \<Rightarrow> pydict \<Rightarrow> (pyerror + pydict) \<times> adaptor" where
  "get_service_manifests self nd container resource inputs =
     (case get_service_info container (node_name nd) of
        Inl e \<Rightarrow> (Inl e, self)
      | Inr (ports, container) \<Rightarrow>
          (case group_ports (node_name nd) ports [] of
             Inl e \<Rightarrow> (Inl e, self)
           | Inr services_to_build \<Rightarrow>
               (let services_to_build =
                      (if PStr (node_name nd) \<notin> set (map fst services_to_build)
                       then rename_loop (node_name nd) service_types services_to_build
                       else services_to_build)
                in case build_services_loop services_to_build resource (node_name nd) inputs self of
                     (Some e, self) \<Rightarrow> (Inl e, self)
                   | (None, self) \<Rightarrow> (Inr container, self))))"

text \<open>
  The interface of a node as \<open>translate\<close> collects it: operation name to inputs
  (\<open>operation.inputs or {}\<close>).  \<open>interface.get(k, {})\<close> is \<open>interface_get\<close>.
\<close>

type_synonym interface = "(string \<times> pydict) list"

definition interface_get :: "interface \<Rightarrow> string \<Rightarrow> pydict" where
  "interface_get interface k = (case map_of interface k of None \<Rightarrow> [] | Some d \<Rightarrow> d)"

text \<open>
  \<open>_create_manifests\<close>.  Two points of the Python need care.

  The container spec is a fresh mapping made by \<open>_get_container\<close> from \<open>properties\<close>; its
  values are the very objects that \<open>properties\<close> holds.  When the volume mounts are added,
  \<open>properties.setdefault("volumeMounts", [])\<close> followed by \<open>+=\<close> changes \<open>properties\<close>: a
  key that is new there is not a key of the container, and an empty list that was there
  was dropped from the container as falsy.  Only a non-empty list that \<open>properties\<close>
  already had is shared with the container, and extending it in place shows there.

  \<open>{"containers": [container], **pod_inputs}\<close> is the one-entry mapping updated with
  \<open>pod_inputs\<close>.

  The lines from ``Get and set volume info'' to ``Set template & pod spec'', which compute
  \<open>spec\<close> from what the calls before have returned, are \<open>workload_spec\<close>; the method itself is
  \<open>create_manifests\<close>.
\<close>

definition workload_spec ::
  "node \<Rightarrow> pyval \<Rightarrow> pyval \<Rightarrow> pydict \<Rightarrow> pydict \<Rightarrow> pydict \<Rightarrow> pydict
     \<Rightarrow> pyval list \<Rightarrow> pyval list \<Rightarrow> pyerror + pydict" where
  "workload_spec nd kind resource_namespace container properties pod_inputs workload_inputs
     vols vol_mounts =
     bindE (if vols \<noteq> []
            then (let (vol_list, pod_inputs) = dict_setdefault pod_inputs ''volumes'' (PList [])
                  in case vol_list of
                       PList l \<Rightarrow> Inr (dict_set pod_inputs ''volumes'' (PList (l @ vols)))
                     | _ \<Rightarrow> Inl TypeError)
            else Inr pod_inputs) (\<lambda>pod_inputs.
     bindE (if vol_mounts \<noteq> []
            then (case map_of properties (PStr ''volumeMounts'') of
                    None \<Rightarrow> Inr container
                  | Some (PList l) \<Rightarrow>
                      Inr (if l \<noteq> []
                           then dict_set container ''volumeMounts'' (PList (l @ vol_mounts))
                           else container)
                  | Some _ \<Rightarrow> Inl TypeError)
            else Inr container) (\<lambda>container.
     let (pod_metadata, pod_inputs) = dict_pop pod_inputs ''metadata'' (PDict []) in
     bindE (py_setdefault pod_metadata ''labels'' (PDict [(PStr ''run'', PStr (node_name nd))]))
       (\<lambda>(_, pod_metadata).
     let pod_labels = dict_get pod_metadata ''labels'' PNone;
         (_, pod_metadata) = dict_setdefault pod_metadata ''namespace'' resource_namespace;
         (pod_data, workload_inputs) = separate_data POD_SPEC_FIELDS workload_inputs;
         pod_inputs = dict_update pod_inputs pod_data;
         pod_metadata = drop_falsy pod_metadata;
         pod_inputs = drop_falsy pod_inputs;
         pod_spec = dict_update [(PStr ''containers'', PList [PDict container])] pod_inputs;
         selector = [(PStr ''matchLabels'', pod_labels)]
     in Inr (if kind = PStr ''Pod''
             then dict_update [(PStr ''containers'', PList [PDict container])] workload_inputs
             else if kind = PStr ''Job''
             then dict_update [(PStr ''template'', PDict [(PStr ''spec'', PDict pod_spec)])]
                    workload_inputs
             else dict_update
                    [(PStr ''selector'', PDict selector),
                     (PStr ''template'',
                      PDict [(PStr ''metadata'', PDict pod_metadata),
                             (PStr ''spec'', PDict pod_spec)])]
                    workload_inputs))))"

definition create_manifests ::
  "adaptor \<Rightarrow> node \<Rightarrow> interface \<Rightarrow> repository list \<Rightarrow> pyerror option \<times> adaptor" where
  "create_manifests self nd interface repositories =
     (let workload_inputs = interface_get interface ''create'';
          pod_inputs = interface_get interface ''configure'';
          properties = map (\<lambda>(key, val). (PStr key, val)) (node_properties nd)
      in
      case get_resource self (PStr (node_name nd)) workload_inputs ''Deployment'' of
        Inl e \<Rightarrow> (Some e, self)
      | Inr (resource, workload_inputs) \<Rightarrow>
      let kind = dict_get resource ''kind'' PNone in
      if kind \<notin> set (map PStr SUPPORTED_WORKLOADS) then (None, self)
      else
      let resource_metadata = dict_get resource ''metadata'' (PDict []) in
      case py_get resource_metadata ''namespace'' PNone of
        Inl e \<Rightarrow> (Some e, self)
      | Inr resource_namespace \<Rightarrow>
      case get_container nd properties repositories pod_inputs of
        Inl e \<Rightarrow> (Some e, self)
      | Inr (container, properties, pod_inputs) \<Rightarrow>
      case get_service_manifests self nd container resource pod_inputs of
        (Inl e, self) \<Rightarrow> (Some e, self)
      | (Inr container, self) \<Rightarrow>
      case get_volumes self nd of
        Inl e \<Rightarrow> (Some e, self)
      | Inr (vols, vol_mounts) \<Rightarrow>
      case workload_spec nd kind resource_namespace container properties pod_inputs
             workload_inputs vols vol_mounts of
        Inl e \<Rightarrow> (Some e, self)
      | Inr spec \<Rightarrow>
          (let (_, resource) = dict_setdefault resource ''spec'' (PDict spec)
           in (None, self\<lparr>manifests := manifests self @ [PDict resource]\<rparr>)))"

text \<open>\<open>"_" in name\<close> for a name that need not be a string.\<close>

fun py_contains :: "string \<Rightarrow> pyval \<Rightarrow> pyerror + bool" where
  "py_contains sub (PStr s) = Inr (str_contains sub s)"
| "py_contains sub (PList xs) = Inr (PStr sub \<in> set xs)"
| "py_contains sub (PDict d) = Inr (PStr sub \<in> set (map fst d))"
| "py_contains sub PNone = Inl TypeError"
| "py_contains sub (PBool b) = Inl TypeError"
| "py_contains sub (PInt i) = Inl TypeError"

text \<open>
  The body of the loop of \<open>translate\<close>: one node is classified by its type and its
  Kubernetes operations, checked and translated.
\<close>

definition kube_interface :: "node \<Rightarrow> interface" where
  "kube_interface nd =
     fold (\<lambda>operation interface.
             AList.update (op_name operation)
               (case op_inputs operation of None \<Rightarrow> [] | Some inputs \<Rightarrow> inputs) interface)
          (filter (\<lambda>x. str_contains KUBERNETES_INTERFACE (op_type x)) (node_interfaces nd)) []"

definition translate_node :: "adaptor \<Rightarrow> node \<Rightarrow> repository list \<Rightarrow> pyerror option \<times> adaptor" where
  "translate_node self nd repositories =
     (let interface = kube_interface nd in
      if str_contains DOCKER_CONTAINER (node_type nd) \<and> interface \<noteq> []
      then (if str_contains ''_'' (node_name nd)
            then (Some (ValueError (''ERROR: Use of underscores in '' @ node_name nd
                                     @ '' workload name prohibited'')), self)
            else create_manifests self nd interface repositories)
      else if str_contains CONTAINER_VOLUME (node_type nd) \<and> interface \<noteq> []
      then (let name = py_or (get_property_value nd ''name'') (PStr (node_name nd)) in
            case py_contains ''_'' name of
              Inl e \<Rightarrow> (Some e, self)
            | Inr True \<Rightarrow>
                (Some (ValueError (''ERROR: Use of underscores in '' @ py_str name
                                    @ '' volume name prohibited'')), self)
            | Inr False \<Rightarrow>
                (let size_val = py_or (get_property_value nd ''size'') (PStr ''1Gi'');
                     pv_inputs = interface_get interface ''create''
                 in case create_persistent_volume self name pv_inputs size_val of
                      (Inl e, self) \<Rightarrow> (Some e, self)
                    | (Inr labels, self) \<Rightarrow>
                        (let pvc_inputs = interface_get interface ''configure''
                         in case create_persistent_volume_claim self name pvc_inputs labels size_val of
                              (Inl e, self) \<Rightarrow> (Some e, self)
                            | (Inr pvc_name, self) \<Rightarrow>
                                (None, self\<lparr>volumes :=
                                   snd (dict_setdefault (volumes self) (node_name nd) pvc_name)\<rparr>))))
      else (None, self))"

fun translate_loop :: "adaptor \<Rightarrow> node list \<Rightarrow> repository list \<Rightarrow> pyerror option \<times> adaptor" where
  "translate_loop self [] repositories = (None, self)"
| "translate_loop self (nd # rest) repositories =
     (case translate_node self nd repositories of
        (Some e, self') \<Rightarrow> (Some e, self')
      | (None, self') \<Rightarrow> translate_loop self' rest repositories)"

text \<open>
  \<open>sorted(nodes, key=lambda x: x.type, reverse=True)\<close>: descending by type, and stable, so
  nodes of one type keep their order.  Each node goes behind the nodes whose type is not
  smaller than its own.
\<close>

fun insert_desc :: "node \<Rightarrow> node list \<Rightarrow> node list" where
  "insert_desc x [] = [x]"
| "insert_desc x (y # ys) =
     (if str_less (node_type y) (node_type x) then x # y # ys else y # insert_desc x ys)"

definition sorted_desc :: "node list \<Rightarrow> node list" where
  "sorted_desc nodes = foldl (\<lambda>acc x. insert_desc x acc) [] nodes"

text \<open>
  \<open>__init__\<close> and \<open>translate\<close>.  The node templates and the repositories of the parsed
  template are parameters.  Writing the manifests to the file is the work of
  \<open>utils.dump_list_yaml\<close> and leaves the adaptor as it is.
\<close>

definition init_adaptor :: "string \<Rightarrow> adaptor" where
  "init_adaptor application_id =
     \<lparr>short_id = application_id, status = ''Initialised'', manifests = [], services = [],
      volumes = []\<rparr>"

definition translate :: "adaptor \<Rightarrow> node list \<Rightarrow> repository list \<Rightarrow> pyerror option \<times> adaptor" where
  "translate self nodes repositories =
     (case translate_loop (self\<lparr>status := ''Translating...''\<rparr>) (sorted_desc nodes) repositories of
        (Some e, self') \<Rightarrow> (Some e, self')
      | (None, self') \<Rightarrow>
          if manifests self' = [] then (None, self'\<lparr>status := ''Skipped Translation''\<rparr>)
          else (None, self'\<lparr>status := ''Translated''\<rparr>))"

section \<open>Scenarios\<close>

text \<open>
  The topologies of the scenarios: one repository list, and container nodes of the plain
  container type with one \<open>create\<close> operation under the Kubernetes interface and an image
  artifact \<open>nginx\<close> from Docker Hub.
\<close>

definition docker_hub :: "repository list" where
  "docker_hub = [\<lparr>repo_name = ''docker_hub'', reposit = ''https://hub.docker.com/''\<rparr>]"

definition nginx_tpl :: pydict where
  "nginx_tpl =
     [(PStr ''artifacts'',
       PDict [(PStr ''image'',
               PDict [(PStr ''file'', PStr ''nginx''),
                      (PStr ''repository'', PStr ''docker_hub'')])])]"

definition container_node :: "string \<Rightarrow> (string \<times> pyval) list \<Rightarrow> pydict option \<Rightarrow> node" where
  "container_node name props create_inputs =
     \<lparr>node_name = name,
      node_type = ''tosca.nodes.MiCADO.Container.Application.Docker'',
      node_interfaces = [\<lparr>op_type = ''Kubernetes'', op_name = ''create'', op_inputs = create_inputs\<rparr>],
      node_properties = props,
      entity_tpl = nginx_tpl,
      related_nodes = [],
      requirements = []\<rparr>"

definition volume_node :: "string \<Rightarrow> (string \<times> pyval) list \<Rightarrow> node" where
  "volume_node name props =
     \<lparr>node_name = name,
      node_type = ''tosca.nodes.MiCADO.Container.Volume'',
      node_interfaces = [\<lparr>op_type = ''Kubernetes'', op_name = ''create'', op_inputs = None\<rparr>],
      node_properties = props,
      entity_tpl = [],
      related_nodes = [],
      requirements = []\<rparr>"

text \<open>The node \<open>web\<close> with one raw port entry, to which further keys can be added.\<close>

definition web_node :: "pydict \<Rightarrow> node" where
  "web_node extra =
     container_node ''web''
       [(''ports'', PList [PDict ([(PStr ''port'', PInt 8080), (PStr ''targetPort'', PInt 80)] @ extra)])]
       None"

text \<open>
  A requirement record \<open>volume\<close> of a container: the target node, the relationship type and
  the relationship properties.
\<close>

definition volume_requirement :: "string \<Rightarrow> string \<Rightarrow> pydict \<Rightarrow> pydict" where
  "volume_requirement target rel_type rel_props =
     [(PStr ''volume'',
       PDict [(PStr ''node'', PStr target),
              (PStr ''relationship'',
               PDict [(PStr ''type'', PStr rel_type), (PStr ''properties'', PDict rel_props)])])]"

text \<open>
  The container \<open>app\<close> is related to the volumes \<open>data\<close> and \<open>logs\<close>; it attaches \<open>data\<close> at
  \<open>/var/data\<close>, and its requirement for \<open>logs\<close> names no location.
\<close>

definition app_node :: node where
  "app_node =
     (container_node ''app'' [] None)
       \<lparr>related_nodes := [''data'', ''logs''],
        requirements :=
          [volume_requirement ''data'' ''tosca.relationships.AttachesTo''
             [(PStr ''location'', PStr ''/var/data'')],
           volume_requirement ''logs'' ''tosca.relationships.AttachesTo'' []]\<rparr>"

section \<open>The classification of nodes, for stating properties\<close>

text \<open>
  The two conditions of the loop of \<open>translate\<close>: a workload node is of the container type
  and declares an operation of the Kubernetes interface; a volume node is of the volume
  type, declares such an operation, and is not caught by the first condition.  The resolved
  name is the one the underscore check looks at, and \<open>naming_error\<close> is the exception that
  the check raises.
\<close>

definition is_workload_node :: "node \<Rightarrow> bool" where
  "is_workload_node nd \<longleftrightarrow> str_contains DOCKER_CONTAINER (node_type nd) \<and> kube_interface nd \<noteq> []"

definition is_volume_node :: "node \<Rightarrow> bool" where
  "is_volume_node nd \<longleftrightarrow>
     \<not> is_workload_node nd \<and> str_contains CONTAINER_VOLUME (node_type nd) \<and> kube_interface nd \<noteq> []"

definition resolved_name :: "node \<Rightarrow> pyval" where
  "resolved_name nd =
     (if is_workload_node nd then PStr (node_name nd)
      else py_or (get_property_value nd ''name'') (PStr (node_name nd)))"

definition naming_error :: "node \<Rightarrow> string \<Rightarrow> pyerror" where
  "naming_error nd name =
     ValueError (''ERROR: Use of underscores in '' @ name
                   @ (if is_workload_node nd then '' workload'' else '' volume'')
                   @ '' name prohibited'')"

text \<open>
  The \<open>app\<close> label that the inputs of the \<open>create\<close> operation carry: the one under
  \<open>metadata.labels\<close>, or the one under \<open>labels\<close> when the metadata has no labels.
\<close>

definition operator_app_label :: "pydict \<Rightarrow> pyval option" where
  "operator_app_label inputs =
     (case py_get (dict_get inputs ''metadata'' (PDict [])) ''labels''
             (dict_get inputs ''labels'' (PDict [])) of
        Inr (PDict labels) \<Rightarrow> map_of labels (PStr ''app'')
      | _ \<Rightarrow> None)"

text \<open>
  The outcome of the kind check of \<open>_create_manifests\<close> for a node: nothing when
  \<open>_get_resource\<close> raises on the \<open>create\<close> inputs, else whether the kind of the resource is
  one of the supported workloads.
\<close>

definition kind_check :: "adaptor \<Rightarrow> node \<Rightarrow> bool option" where
  "kind_check self nd =
     (case get_resource self (PStr (node_name nd)) (interface_get (kube_interface nd) ''create'')
             ''Deployment'' of
        Inl e \<Rightarrow> None
      | Inr (resource, rest) \<Rightarrow>
          Some (dict_get resource ''kind'' PNone \<in> set (map PStr SUPPORTED_WORKLOADS)))"

section \<open>The scenarios, evaluated\<close>

text \<open>
  Claim C1.  The topology with the one container node \<open>web\<close>, the image \<open>nginx\<close>, the raw port
  entry \<open>{port: 8080, targetPort: 80}\<close> and no \<open>create\<close> inputs translates without error
  into two manifests.  One is the Service: its metadata name is the bare node name \<open>web\<close>, its
  spec has no \<open>type\<close> key (the type is ClusterIP), and its one port entry has \<open>targetPort\<close> 80,
  \<open>port\<close> 8080 and \<open>protocol\<close> TCP, next to the name \<open>80-tcp\<close> that a port without a name is
  given.  The other is the Deployment: its \<open>apiVersion\<close> is \<open>apps/v1\<close>, and both
  \<open>spec.selector.matchLabels\<close> and \<open>spec.template.metadata.labels\<close> are \<open>{run: web}\<close>.
\<close>

theorem web_roundtrip:
  "translate (init_adaptor ''myapp'') [web_node []] docker_hub =
     (None,
      \<lparr>short_id = ''myapp'',
       status = ''Translated'',
       manifests =
         [PDict
            [(PStr ''apiVersion'', PStr ''v1''),
             (PStr ''kind'', PStr ''Service''),
             (PStr ''metadata'',
              PDict [(PStr ''name'', PStr ''web''),
                     (PStr ''labels'', PDict [(PStr ''app'', PStr ''myapp'')])]),
             (PStr ''spec'',
              PDict [(PStr ''ports'',
                      PList [PDict [(PStr ''name'', PStr ''80-tcp''),
                                    (PStr ''targetPort'', PInt 80),
                                    (PStr ''port'', PInt 8080),
                                    (PStr ''protocol'', PStr ''TCP'')]]),
                     (PStr ''selector'', PDict [(PStr ''run'', PStr ''web'')])])],
          PDict
            [(PStr ''apiVersion'', PStr ''apps/v1''),
             (PStr ''kind'', PStr ''Deployment''),
             (PStr ''metadata'',
              PDict [(PStr ''name'', PStr ''web''),
                     (PStr ''labels'', PDict [(PStr ''app'', PStr ''myapp'')])]),
             (PStr ''spec'',
              PDict [(PStr ''selector'',
                      PDict [(PStr ''matchLabels'', PDict [(PStr ''run'', PStr ''web'')])]),
                     (PStr ''template'',
                      PDict [(PStr ''metadata'',
                              PDict [(PStr ''labels'', PDict [(PStr ''run'', PStr ''web'')])]),
                             (PStr ''spec'',
                              PDict [(PStr ''containers'',
                                      PList [PDict [(PStr ''image'', PStr ''nginx''),
                                                    (PStr ''name'', PStr ''web'')]])])])])]],
       services =
         [PDict [(PStr ''node'', PStr ''web''),
                 (PStr ''name'', PStr ''web''),
                 (PStr ''namespace'', PStr ''default'')]],
       volumes = []\<rparr>)"
  by code_simp

text \<open>
  Claim C2.  The claim has a cluster IP outside \<open>10.96\<close> to \<open>10.111\<close> dropped from the port
  spec and from the Service.  The code does not drop it: for the port entry
  \<open>{port: 8080, targetPort: 80, clusterIP: 172.16.0.5}\<close> the branch that warns assigns
  nothing, so the port spec keeps \<open>clusterIP: 172.16.0.5\<close> and the Service manifest of the
  node \<open>web\<close> gets \<open>spec.clusterIP: 172.16.0.5\<close>.  (The address \<open>10.100.5.5\<close> is kept as it
  is, as the claim says.)
\<close>

theorem cluster_ip_out_of_range_kept:
  "build_port_spec
     (PDict [(PStr ''port'', PInt 8080), (PStr ''targetPort'', PInt 80),
             (PStr ''clusterIP'', PStr ''172.16.0.5'')]) ''web''
   = Inr (Some [(PStr ''name'', PStr ''80-tcp''),
                (PStr ''targetPort'', PInt 80),
                (PStr ''port'', PInt 8080),
                (PStr ''protocol'', PStr ''TCP''),
                (PStr ''type'', PStr ''ClusterIP''),
                (PStr ''clusterIP'', PStr ''172.16.0.5'')])
   \<and> hd (manifests (snd (translate (init_adaptor ''myapp'')
                            [web_node [(PStr ''clusterIP'', PStr ''172.16.0.5'')]] docker_hub)))
     = PDict
         [(PStr ''apiVersion'', PStr ''v1''),
          (PStr ''kind'', PStr ''Service''),
          (PStr ''metadata'',
           PDict [(PStr ''name'', PStr ''web''),
                  (PStr ''labels'', PDict [(PStr ''app'', PStr ''myapp'')])]),
          (PStr ''spec'',
           PDict [(PStr ''ports'',
                   PList [PDict [(PStr ''name'', PStr ''80-tcp''),
                                 (PStr ''targetPort'', PInt 80),
                                 (PStr ''port'', PInt 8080),
                                 (PStr ''protocol'', PStr ''TCP'')]]),
                  (PStr ''selector'', PDict [(PStr ''run'', PStr ''web'')]),
                  (PStr ''clusterIP'', PStr ''172.16.0.5'')])]
   \<and> build_port_spec
       (PDict [(PStr ''port'', PInt 8080), (PStr ''targetPort'', PInt 80),
               (PStr ''clusterIP'', PStr ''10.100.5.5'')]) ''web''
     = Inr (Some [(PStr ''name'', PStr ''80-tcp''),
                  (PStr ''targetPort'', PInt 80),
                  (PStr ''port'', PInt 8080),
                  (PStr ''protocol'', PStr ''TCP''),
                  (PStr ''type'', PStr ''ClusterIP''),
                  (PStr ''clusterIP'', PStr ''10.100.5.5'')])"
  by code_simp

text \<open>
  Claim C3.  The claim has a node port outside 30000 to 32767 dropped from the port spec.
  The code does not drop it: its guard asks for a number below 30000 and above 32767 at
  once, so the port entries with \<open>nodePort: 80\<close> and with \<open>nodePort: 40000\<close> keep their node
  port.  (The node port 31000, within the range, is kept, as the claim says.)
\<close>

theorem node_port_out_of_range_kept:
  "build_port_spec
     (PDict [(PStr ''port'', PInt 8080), (PStr ''targetPort'', PInt 80),
             (PStr ''nodePort'', PInt 80)]) ''web''
   = Inr (Some [(PStr ''name'', PStr ''80-tcp''),
                (PStr ''targetPort'', PInt 80),
                (PStr ''port'', PInt 8080),
                (PStr ''protocol'', PStr ''TCP''),
                (PStr ''type'', PStr ''NodePort''),
                (PStr ''nodePort'', PInt 80)])
   \<and> build_port_spec
       (PDict [(PStr ''port'', PInt 8080), (PStr ''targetPort'', PInt 80),
               (PStr ''nodePort'', PInt 40000)]) ''web''
     = Inr (Some [(PStr ''name'', PStr ''80-tcp''),
                  (PStr ''targetPort'', PInt 80),
                  (PStr ''port'', PInt 8080),
                  (PStr ''protocol'', PStr ''TCP''),
                  (PStr ''type'', PStr ''NodePort''),
                  (PStr ''nodePort'', PInt 40000)])
   \<and> build_port_spec
       (PDict [(PStr ''port'', PInt 8080), (PStr ''targetPort'', PInt 80),
               (PStr ''nodePort'', PInt 31000)]) ''web''
     = Inr (Some [(PStr ''name'', PStr ''80-tcp''),
                  (PStr ''targetPort'', PInt 80),
                  (PStr ''port'', PInt 8080),
                  (PStr ''protocol'', PStr ''TCP''),
                  (PStr ''type'', PStr ''NodePort''),
                  (PStr ''nodePort'', PInt 31000)])"
  by code_simp

text \<open>
  Claim C4.  The claim turns a non-empty \<open>environment\<close> mapping into one \<open>{name, value}\<close>
  record per pair.  The code iterates the mapping itself, which yields its keys, and unpacks
  each key into \<open>key, value\<close>: for \<open>environment: {PATH: /bin}\<close> the construction of the
  container spec raises a \<open>ValueError\<close>, and so does the translation of the node, and for
  \<open>environment: {AB: x}\<close> the record is made of the two characters of the key.
\<close>

theorem environment_mapping_unpacks_keys:
  "get_container (container_node ''web'' [] None)
     [(PStr ''environment'', PDict [(PStr ''PATH'', PStr ''/bin'')])] docker_hub []
   = Inl (ValueError ''too many values to unpack (expected 2)'')
   \<and> translate (init_adaptor ''myapp'')
       [container_node ''web'' [(''environment'', PDict [(PStr ''PATH'', PStr ''/bin'')])] None]
       docker_hub
     = (Some (ValueError ''too many values to unpack (expected 2)''),
        \<lparr>short_id = ''myapp'', status = ''Translating...'', manifests = [], services = [],
         volumes = []\<rparr>)
   \<and> get_container (container_node ''web'' [] None)
       [(PStr ''environment'', PDict [(PStr ''AB'', PStr ''x'')])] docker_hub []
     = Inr ([(PStr ''image'', PStr ''nginx''),
             (PStr ''name'', PStr ''web''),
             (PStr ''env'', PList [PDict [(PStr ''name'', PStr ''A''), (PStr ''value'', PStr ''B'')]])],
            [(PStr ''image'', PStr ''nginx''),
             (PStr ''name'', PStr ''web''),
             (PStr ''command'', PList []),
             (PStr ''args'', PList []),
             (PStr ''env'', PList [PDict [(PStr ''name'', PStr ''A''), (PStr ''value'', PStr ''B'')]]),
             (PStr ''stdin'', PNone),
             (PStr ''livenessProbe'', PNone)],
            [])"
  by code_simp

text \<open>
  Claim C5.  The claim has a raw port entry without publish and target value dropped, the
  translation going on.  The code applies \<open>int\<close> to the missing value before it looks at
  it: for the port entry \<open>{protocol: UDP}\<close> the port spec is not \<open>None\<close> but a \<open>TypeError\<close>,
  which ends the translation of the topology.
\<close>

theorem port_without_numbers_raises:
  "build_port_spec (PDict [(PStr ''protocol'', PStr ''UDP'')]) ''web'' = Inl TypeError
   \<and> translate (init_adaptor ''myapp'')
       [container_node ''web'' [(''ports'', PList [PDict [(PStr ''protocol'', PStr ''UDP'')]])] None]
       docker_hub
     = (Some TypeError,
        \<lparr>short_id = ''myapp'', status = ''Translating...'', manifests = [], services = [],
         volumes = []\<rparr>)"
  by code_simp

text \<open>
  Claim C8.  The volume nodes \<open>data\<close> and \<open>logs\<close> have no \<open>size\<close>; the container \<open>app\<close> attaches
  \<open>data\<close> at \<open>/var/data\<close> and is related to \<open>logs\<close>, for which its requirement names no
  location.  As the claim says, each volume node yields a PersistentVolume and a
  PersistentVolumeClaim (\<open>data-pv\<close> and \<open>data-pvc\<close>) with \<open>1Gi\<close> and \<open>ReadWriteMany\<close>, the pod
  spec of the Deployment has the volume entry \<open>data\<close> with the claim \<open>data-pvc\<close>, and \<open>logs\<close>
  contributes nothing.  Against the claim, the container of the Deployment has no
  \<open>volumeMounts\<close>: the mount at \<open>/var/data\<close> is put into \<open>properties\<close> after the container
  spec has been made from it.
\<close>

theorem attached_volume_mount_lost:
  "translate (init_adaptor ''myapp'') [app_node, volume_node ''data'' [], volume_node ''logs'' []]
     docker_hub =
   (None,
     \<lparr>short_id = ''myapp'', status = ''Translated'',
        manifests =
          [PDict
            [(PStr ''apiVersion'', PStr ''v1''),
             (PStr ''kind'', PStr ''PersistentVolume''),
             (PStr ''metadata'',
              PDict
               [(PStr ''labels'',
                 PDict
                  [(PStr ''volume'', PStr ''data-pv''),
                   (PStr ''app'', PStr ''myapp'')]),
                (PStr ''name'', PStr ''data-pv'')]),
             (PStr ''spec'',
              PDict
               [(PStr ''capacity'', PDict [(PStr ''storage'', PStr ''1Gi'')]),
                (PStr ''accessModes'', PList [PStr ''ReadWriteMany'']),
                (PStr ''persistentVolumeReclaimPolicy'', PStr ''Retain'')])],
           PDict
            [(PStr ''apiVersion'', PStr ''v1''),
             (PStr ''kind'', PStr ''PersistentVolumeClaim''),
             (PStr ''metadata'',
              PDict
               [(PStr ''labels'',
                 PDict
                  [(PStr ''volume'', PStr ''data-pvc''),
                   (PStr ''app'', PStr ''myapp'')]),
                (PStr ''name'', PStr ''data-pvc'')]),
             (PStr ''spec'',
              PDict
               [(PStr ''resources'',
                 PDict
                  [(PStr ''requests'',
                    PDict [(PStr ''storage'', PStr ''1Gi'')])]),
                (PStr ''accessModes'', PList [PStr ''ReadWriteMany'']),
                (PStr ''selector'',
                 PDict
                  [(PStr ''matchLabels'',
                    PDict
                     [(PStr ''volume'', PStr ''data-pv''),
                      (PStr ''app'', PStr ''myapp'')])])])],
           PDict
            [(PStr ''apiVersion'', PStr ''v1''),
             (PStr ''kind'', PStr ''PersistentVolume''),
             (PStr ''metadata'',
              PDict
               [(PStr ''labels'',
                 PDict
                  [(PStr ''volume'', PStr ''logs-pv''),
                   (PStr ''app'', PStr ''myapp'')]),
                (PStr ''name'', PStr ''logs-pv'')]),
             (PStr ''spec'',
              PDict
               [(PStr ''capacity'', PDict [(PStr ''storage'', PStr ''1Gi'')]),
                (PStr ''accessModes'', PList [PStr ''ReadWriteMany'']),
                (PStr ''persistentVolumeReclaimPolicy'', PStr ''Retain'')])],
           PDict
            [(PStr ''apiVersion'', PStr ''v1''),
             (PStr ''kind'', PStr ''PersistentVolumeClaim''),
             (PStr ''metadata'',
              PDict
               [(PStr ''labels'',
                 PDict
                  [(PStr ''volume'', PStr ''logs-pvc''),
                   (PStr ''app'', PStr ''myapp'')]),
                (PStr ''name'', PStr ''logs-pvc'')]),
             (PStr ''spec'',
              PDict
               [(PStr ''resources'',
                 PDict
                  [(PStr ''requests'',
                    PDict [(PStr ''storage'', PStr ''1Gi'')])]),
                (PStr ''accessModes'', PList [PStr ''ReadWriteMany'']),
                (PStr ''selector'',
                 PDict
                  [(PStr ''matchLabels'',
                    PDict
                     [(PStr ''volume'', PStr ''logs-pv''),
                      (PStr ''app'', PStr ''myapp'')])])])],
           PDict
            [(PStr ''apiVersion'', PStr ''apps/v1''),
             (PStr ''kind'', PStr ''Deployment''),
             (PStr ''metadata'',
              PDict
               [(PStr ''name'', PStr ''app''),
                (PStr ''labels'', PDict [(PStr ''app'', PStr ''myapp'')])]),
             (PStr ''spec'',
              PDict
               [(PStr ''selector'',
                 PDict
                  [(PStr ''matchLabels'',
                    PDict [(PStr ''run'', PStr ''app'')])]),
                (PStr ''template'',
                 PDict
                  [(PStr ''metadata'',
                    PDict
                     [(PStr ''labels'',
                       PDict [(PStr ''run'', PStr ''app'')])]),
                   (PStr ''spec'',
                    PDict
                     [(PStr ''containers'',
                       PList
                        [PDict
                          [(PStr ''image'', PStr ''nginx''),
                           (PStr ''name'', PStr ''app'')]]),
                      (PStr ''volumes'',
                       PList
                        [PDict
                          [(PStr ''name'', PStr ''data''),
                           (PStr ''persistentVolumeClaim'',
                            PDict
                             [(PStr ''claimName'',
                               PStr ''data-pvc'')])]])])])])]],
        services = [],
        volumes =
          [(PStr ''data'', PStr ''data-pvc''),
           (PStr ''logs'', PStr ''logs-pvc'')]\<rparr>)"
  by code_simp

section \<open>Facts about the operations\<close>

lemma bindE_simps [simp]:
  "bindE (Inl e) f = Inl e"
  "bindE (Inr x) f = f x"
  by (simp_all add: bindE_def)

lemma bindE_eq_Inr: "bindE m f = Inr r \<longleftrightarrow> (\<exists>x. m = Inr x \<and> f x = Inr r)"
  by (cases m) simp_all

lemma bindE_InrE:
  assumes "bindE m f = Inr r" and "\<And>x. m = Inr x \<Longrightarrow> f x = Inr r \<Longrightarrow> Q"
  shows Q
  using assms by (cases m) simp_all

lemma if_InrE:
  assumes "(if c then a else b) = Inr x"
    and "c \<Longrightarrow> a = Inr x \<Longrightarrow> Q" and "\<not> c \<Longrightarrow> b = Inr x \<Longrightarrow> Q"
  shows Q
  using assms by (cases c) simp_all

lemma str_contains_single: "str_contains [c] s \<longleftrightarrow> c \<in> set s"
  by (induction s) auto

subsection \<open>Mappings\<close>

lemma fst_dict_pop [simp]: "fst (dict_pop d k v) = dict_get d k v"
  by (simp add: dict_pop_def dict_get_def split: option.splits)

lemma map_of_snd_dict_pop [simp]: "map_of (snd (dict_pop d k v)) = (map_of d)(PStr k := None)"
  by (auto simp add: dict_pop_def delete_conv' fun_eq_iff split: option.splits)

lemma fst_dict_setdefault [simp]: "fst (dict_setdefault d k v) = dict_get d k v"
  by (simp add: dict_setdefault_def dict_get_def split: option.splits)

lemma map_of_snd_dict_setdefault [simp]:
  "map_of (snd (dict_setdefault d k v)) = (map_of d)(PStr k \<mapsto> dict_get d k v)"
  by (auto simp add: dict_setdefault_def dict_get_def fun_eq_iff map_add_def split: option.splits)

lemma map_of_dict_set [simp]: "map_of (dict_set d k v) = (map_of d)(PStr k \<mapsto> v)"
  by (simp add: dict_set_def update_conv')

lemma dict_get_upd [simp]:
  "dict_get (snd (dict_pop d k v)) k' w = (if k' = k then w else dict_get d k' w)"
  "dict_get (snd (dict_setdefault d k v)) k' w = (if k' = k then dict_get d k v else dict_get d k' w)"
  "dict_get (dict_set d k v) k' w = (if k' = k then v else dict_get d k' w)"
  by (simp_all add: dict_get_def)

lemma map_of_drop_falsy:
  "map_of d k = Some v \<Longrightarrow> truthy v \<Longrightarrow> map_of (drop_falsy d) k = Some v"
  by (induction d) (auto simp: drop_falsy_def)

lemma py_setdefault_eq_Inr:
  "py_setdefault v k dflt = Inr (a, b) \<longleftrightarrow>
     (\<exists>d. v = PDict d \<and> a = dict_get d k dflt \<and> b = snd (dict_setdefault d k dflt))"
  by (cases v) (auto simp: prod_eq_iff)

subsection \<open>The resource and its labels\<close>

text \<open>
  A resource that \<open>_get_resource\<close> returns has the three keys \<open>apiVersion\<close>, \<open>kind\<close> and
  \<open>metadata\<close>; its labels are a mapping with the key \<open>app\<close>, whose value is the one the
  inputs carry and otherwise the application id.
\<close>

lemma get_resource_result:
  assumes "get_resource self name inputs k = Inr (resource, rest)"
  shows "\<exists>api_version kind md labels.
           resource = [(PStr ''apiVersion'', api_version), (PStr ''kind'', kind),
                       (PStr ''metadata'', PDict md)]
         \<and> map_of md (PStr ''labels'') = Some (PDict labels)
         \<and> map_of labels (PStr ''app'') =
             Some (case operator_app_label inputs of
                     None \<Rightarrow> PStr (short_id self) | Some v \<Rightarrow> v)"
proof -
  from assms obtain md0 l0 where
    md0: "dict_get inputs ''metadata'' (PDict []) = PDict md0" and
    l0: "dict_get md0 ''labels'' (dict_get inputs ''labels'' (PDict [])) = PDict l0" and
    res: "\<exists>a b md. resource = [(PStr ''apiVersion'', a), (PStr ''kind'', b), (PStr ''metadata'', PDict md)]
           \<and> map_of md (PStr ''labels'') = Some (PDict (snd (dict_setdefault l0 ''app'' (PStr (short_id self)))))"
    by (auto simp add: get_resource_def Let_def split_beta bindE_eq_Inr py_setdefault_eq_Inr)
  have "operator_app_label inputs = map_of l0 (PStr ''app'')"
    by (simp add: operator_app_label_def md0 l0)
  moreover have "map_of (snd (dict_setdefault l0 ''app'' (PStr (short_id self)))) (PStr ''app'')
      = Some (case map_of l0 (PStr ''app'') of None \<Rightarrow> PStr (short_id self) | Some v \<Rightarrow> v)"
    by (simp add: dict_get_def)
  ultimately show ?thesis using res by auto
qed

subsection \<open>The container spec and its image\<close>

lemma get_container_no_image:
  assumes "get_image (entity_tpl nd) repos = Inr img" and "\<not> truthy img"
  shows "get_container nd props repos inputs
           = Inl (ValueError (''No image specified for '' @ node_name nd @ ''!''))"
  using assms by (simp add: get_container_def)

text \<open>Neither part of the translation of the properties touches the key \<open>image\<close>.\<close>

lemma translate_common_keeps:
  "\<And>r. translate_common_properties nd p = Inr r
     \<Longrightarrow> map_of r (PStr ''image'') = map_of p (PStr ''image'')"
  unfolding translate_common_properties_def Let_def split_beta
  apply (elim bindE_InrE)
  apply (simp (no_asm_use) only: sum.inject)
  apply hypsubst
  apply (simp (no_asm))
  done

lemma translate_other_keeps:
  "\<And>r i'. translate_other_properties p i = Inr (r, i')
     \<Longrightarrow> map_of r (PStr ''image'') = map_of p (PStr ''image'')"
  unfolding translate_other_properties_def Let_def split_beta
  apply (elim bindE_InrE if_InrE)
     apply (simp_all (no_asm_use) only: sum.inject prod.inject)
     apply (clarify, simp (no_asm))+
  done

text \<open>
  \<open>_get_image\<close> gives up with the empty string exactly when the \<open>artifacts\<close> of the template
  and their \<open>image\<close> entry are mappings (an absent key stands for the empty mapping) and the
  \<open>file\<close> or the \<open>repository\<close> of the entry is missing or empty, or there is no repository.
  Every other value that it returns is non-empty.
\<close>

lemma get_image_unresolved:
  assumes "dict_get tpl ''artifacts'' (PDict []) = PDict artifacts"
    and "dict_get artifacts ''image'' (PDict []) = PDict details"
    and "\<not> truthy (dict_get details ''file'' PNone)
         \<or> \<not> truthy (dict_get details ''repository'' PNone) \<or> repos = []"
  shows "get_image tpl repos = Inr (PStr [])"
  using assms by (auto simp add: get_image_def)

lemma get_image_falsy:
  assumes "get_image tpl repos = Inr img" and "\<not> truthy img"
  shows "\<exists>artifacts details.
           dict_get tpl ''artifacts'' (PDict []) = PDict artifacts
         \<and> dict_get artifacts ''image'' (PDict []) = PDict details
         \<and> (\<not> truthy (dict_get details ''file'' PNone)
            \<or> \<not> truthy (dict_get details ''repository'' PNone) \<or> repos = [])"
proof -
  from assms(1) obtain artifacts where
    a: "dict_get tpl ''artifacts'' (PDict []) = PDict artifacts"
    by (cases "dict_get tpl ''artifacts'' (PDict [])") (simp_all add: get_image_def)
  from assms(1) a obtain details where
    d: "dict_get artifacts ''image'' (PDict []) = PDict details"
    by (cases "dict_get artifacts ''image'' (PDict [])") (simp_all add: get_image_def)
  show ?thesis
  proof (rule ccontr)
    assume "\<not> ?thesis"
    with a d have t: "truthy (dict_get details ''file'' PNone)"
      "truthy (dict_get details ''repository'' PNone)" "repos \<noteq> []"
      by auto
    from assms(1) a d t have "truthy img"
      by (auto simp add: get_image_def split: pyval.splits if_splits list.splits)
    with assms(2) show False by simp
  qed
qed

text \<open>
  The \<open>image\<close> field of a container spec that has been built: the \<open>image\<close> property of the
  node when it has one, else the image that \<open>_get_image\<close> has resolved.  An \<open>image\<close> property
  with an empty value is the one case in which the field is dropped.
\<close>

lemma get_container_image:
  assumes "get_container nd props repos inputs = Inr (container, props', inputs')"
    and "case map_of props (PStr ''image'') of None \<Rightarrow> True | Some v \<Rightarrow> truthy v"
  shows "\<exists>img. get_image (entity_tpl nd) repos = Inr img \<and> truthy img
             \<and> map_of container (PStr ''image'') = Some (dict_get props ''image'' img)
             \<and> truthy (dict_get props ''image'' img)"
proof (cases "get_image (entity_tpl nd) repos")
  case (Inl e)
  with assms(1) show ?thesis by (simp add: get_container_def)
next
  case (Inr img)
  show ?thesis
  proof (cases "truthy img")
    case False
    with Inr assms(1) show ?thesis by (simp add: get_container_no_image)
  next
    case True
    from assms(1) Inr True obtain p1 p2 i2 where
      common: "translate_common_properties nd
                 (fold (\<lambda>key p. snd (dict_pop p key PNone)) SWARM_PROPERTIES
                    (snd (dict_setdefault props ''image'' img))) = Inr p1" and
      other: "translate_other_properties p1 inputs = Inr (p2, i2)" and
      container: "container = drop_falsy p2"
      by (auto simp add: get_container_def Let_def split_beta bindE_eq_Inr)
    have p2: "map_of p2 (PStr ''image'') = Some (dict_get props ''image'' img)"
      using translate_other_keeps [OF other] translate_common_keeps [OF common]
      by (simp add: SWARM_PROPERTIES_def)
    have t: "truthy (dict_get props ''image'' img)"
      using assms(2) True by (simp add: dict_get_def split: option.splits)
    with p2 have "map_of container (PStr ''image'') = Some (dict_get props ''image'' img)"
      unfolding container by (simp add: map_of_drop_falsy)
    with Inr True t show ?thesis by simp
  qed
qed

subsection \<open>The workload manifest\<close>

lemma create_manifests_unsupported:
  assumes "get_resource self (PStr (node_name nd)) (interface_get iface ''create'') ''Deployment''
             = Inr (resource, rest)"
    and "dict_get resource ''kind'' PNone \<notin> set (map PStr SUPPORTED_WORKLOADS)"
  shows "create_manifests self nd iface repos = (None, self)"
  using assms by (simp add: create_manifests_def Let_def)

lemma create_manifests_no_image:
  assumes "get_resource self (PStr (node_name nd)) (interface_get iface ''create'') ''Deployment''
             = Inr (resource, rest)"
    and "dict_get resource ''kind'' PNone \<in> set (map PStr SUPPORTED_WORKLOADS)"
    and "get_image (entity_tpl nd) repos = Inr img" and "\<not> truthy img"
  shows "create_manifests self nd iface repos
           = (Some (ValueError (''No image specified for '' @ node_name nd @ ''!'')), self)"
proof -
  from get_resource_result [OF assms(1)] obtain md where
    md: "dict_get resource ''metadata'' (PDict []) = PDict md"
    by (auto simp: dict_get_def)
  have gc: "get_container nd props repos inputs
           = Inl (ValueError (''No image specified for '' @ node_name nd @ ''!''))" for props inputs
    using assms(3,4) by (rule get_container_no_image)
  show ?thesis
    unfolding create_manifests_def Let_def assms(1) gc
    using assms(2) by (simp add: md)
qed

text \<open>
  When the method returns and the list of manifests has changed, the kind is a supported
  one and the last manifest is the resource with its spec.
\<close>

lemma create_manifests_appends:
  assumes "create_manifests self nd iface repos = (None, self')"
    and "manifests self' \<noteq> manifests self"
  shows "\<exists>resource rest spec.
           get_resource self (PStr (node_name nd)) (interface_get iface ''create'') ''Deployment''
             = Inr (resource, rest)
         \<and> dict_get resource ''kind'' PNone \<in> set (map PStr SUPPORTED_WORKLOADS)
         \<and> last (manifests self') = PDict (snd (dict_setdefault resource ''spec'' spec))"
  using assms
  apply (auto simp add: create_manifests_def Let_def split: sum.splits prod.splits if_splits)
  apply (metis snd_conv)
  done

subsection \<open>The loop of \<open>translate\<close>\<close>

lemma workload_underscore:
  assumes "is_workload_node nd" and "CHR ''_'' \<in> set (node_name nd)"
  shows "translate_node self nd repos = (Some (naming_error nd (node_name nd)), self)"
  using assms
  by (simp add: translate_node_def is_workload_node_def naming_error_def Let_def str_contains_single)

lemma workload_no_underscore:
  assumes "is_workload_node nd" and "CHR ''_'' \<notin> set (node_name nd)"
  shows "translate_node self nd repos = create_manifests self nd (kube_interface nd) repos"
  using assms
  by (simp add: translate_node_def is_workload_node_def Let_def str_contains_single)

lemma volume_underscore:
  assumes "is_volume_node nd" and "resolved_name nd = PStr name" and "CHR ''_'' \<in> set name"
  shows "translate_node self nd repos = (Some (naming_error nd name), self)"
  using assms
  by (auto simp add: translate_node_def is_volume_node_def is_workload_node_def resolved_name_def
      naming_error_def Let_def str_contains_single py_str_def)

text \<open>The loop up to a node, the node, and the loop after it.\<close>

lemma translate_loop_append:
  "translate_loop self (pre @ nd # post) repos =
     (case translate_loop self pre repos of
        (Some e, s) \<Rightarrow> (Some e, s)
      | (None, s) \<Rightarrow>
          (case translate_node s nd repos of
             (Some e, s') \<Rightarrow> (Some e, s')
           | (None, s') \<Rightarrow> translate_loop s' post repos))"
  by (induction pre arbitrary: self) (auto split: prod.splits option.splits)

lemma set_insert_desc: "set (insert_desc x ys) = insert x (set ys)"
  by (induction ys) auto

lemma set_foldl_insert_desc:
  "set (foldl (\<lambda>acc x. insert_desc x acc) acc xs) = set acc \<union> set xs"
  by (induction xs arbitrary: acc) (auto simp: set_insert_desc)

lemma set_sorted_desc: "set (sorted_desc nodes) = set nodes"
  by (simp add: sorted_desc_def set_foldl_insert_desc)

section \<open>The naming rule\<close>

text \<open>
  Claim C6.  A workload node or a volume node whose resolved name is a string with an
  underscore makes the loop of \<open>translate\<close> raise the naming error that names it, before
  anything is built for it: the step for the node raises with the adaptor untouched.  In a
  topology that has such a node, \<open>translate\<close> therefore never returns normally: either a node
  visited earlier has raised, or the nodes before it have left the adaptor as \<open>s\<close>, and the
  naming error is raised with the adaptor still \<open>s\<close>.
\<close>

theorem underscore_name_raises:
  assumes "nd \<in> set nodes"
    and "is_workload_node nd \<or> is_volume_node nd"
    and "resolved_name nd = PStr name"
    and "CHR ''_'' \<in> set name"
  shows "translate_node self nd repos = (Some (naming_error nd name), self)
       \<and> (\<exists>pre post. sorted_desc nodes = pre @ nd # post
            \<and> translate self nodes repos =
                (case translate_loop (self\<lparr>status := ''Translating...''\<rparr>) pre repos of
                   (Some e, s) \<Rightarrow> (Some e, s)
                 | (None, s) \<Rightarrow> (Some (naming_error nd name), s)))"
proof -
  have step: "translate_node s nd repos = (Some (naming_error nd name), s)" for s
  proof (cases "is_workload_node nd")
    case True
    with assms(3) have "name = node_name nd" by (simp add: resolved_name_def)
    with True assms(4) show ?thesis by (simp add: workload_underscore)
  next
    case False
    with assms(2) have "is_volume_node nd" by simp
    then show ?thesis using assms(3,4) by (rule volume_underscore)
  qed
  from assms(1) have "nd \<in> set (sorted_desc nodes)" by (simp add: set_sorted_desc)
  then obtain pre post where split: "sorted_desc nodes = pre @ nd # post"
    by (auto simp: in_set_conv_decomp)
  have "translate self nodes repos =
          (case translate_loop (self\<lparr>status := ''Translating...''\<rparr>) pre repos of
             (Some e, s) \<Rightarrow> (Some e, s)
           | (None, s) \<Rightarrow> (Some (naming_error nd name), s))"
    by (simp add: translate_def split translate_loop_append step split: prod.splits option.splits)
  with step split show ?thesis by blast
qed

text \<open>
  The theorem at the topology of \<open>web\<close> and a volume node \<open>my_data\<close>: the volume node is
  visited first and the naming error names \<open>my_data\<close>.
\<close>

theorem underscore_name_raises_witness:
  "volume_node ''my_data'' [] \<in> set [web_node [], volume_node ''my_data'' []]
   \<and> (is_workload_node (volume_node ''my_data'' []) \<or> is_volume_node (volume_node ''my_data'' []))
   \<and> resolved_name (volume_node ''my_data'' []) = PStr ''my_data''
   \<and> CHR ''_'' \<in> set ''my_data''
   \<and> naming_error (volume_node ''my_data'' []) ''my_data''
       = ValueError ''ERROR: Use of underscores in my_data volume name prohibited''
   \<and> translate_node (init_adaptor ''myapp'') (volume_node ''my_data'' []) docker_hub
       = (Some (naming_error (volume_node ''my_data'' []) ''my_data''), init_adaptor ''myapp'')
   \<and> (\<exists>pre post.
         sorted_desc [web_node [], volume_node ''my_data'' []] = pre @ volume_node ''my_data'' [] # post
       \<and> translate (init_adaptor ''myapp'') [web_node [], volume_node ''my_data'' []] docker_hub
           = (case translate_loop ((init_adaptor ''myapp'')\<lparr>status := ''Translating...''\<rparr>) pre
                     docker_hub of
                (Some e, s) \<Rightarrow> (Some e, s)
              | (None, s) \<Rightarrow> (Some (naming_error (volume_node ''my_data'' []) ''my_data''), s)))"
proof -
  have h1: "volume_node ''my_data'' [] \<in> set [web_node [], volume_node ''my_data'' []]"
    by simp
  have h2: "is_workload_node (volume_node ''my_data'' []) \<or> is_volume_node (volume_node ''my_data'' [])"
    by code_simp
  have h3: "resolved_name (volume_node ''my_data'' []) = PStr ''my_data''"
    by code_simp
  have h4: "CHR ''_'' \<in> set ''my_data''"
    by simp
  have h5: "naming_error (volume_node ''my_data'' []) ''my_data''
       = ValueError ''ERROR: Use of underscores in my_data volume name prohibited''"
    by code_simp
  from underscore_name_raises [where self = "init_adaptor ''myapp''" and repos = docker_hub,
      OF h1 h2 h3 h4] h1 h2 h3 h4 h5
  show ?thesis by blast
qed

text \<open>
  Claim C10.  For a container node that declares a Kubernetes operation and whose
  \<open>create\<close> inputs give a kind that is not supported, such as \<open>ReplicaSet\<close>, the underscore
  decides: with an underscore in the name the naming error is raised, without one the
  node is skipped, nothing raised and the adaptor unchanged.  The check of the name comes
  before the check of the kind.
\<close>

theorem underscore_check_before_kind_check:
  assumes "is_workload_node nd" and "kind_check self nd = Some False"
  shows "translate_node self nd repos =
           (if CHR ''_'' \<in> set (node_name nd)
            then (Some (naming_error nd (node_name nd)), self)
            else (None, self))"
proof (cases "CHR ''_'' \<in> set (node_name nd)")
  case True
  with assms(1) show ?thesis by (simp add: workload_underscore)
next
  case False
  from assms(2) obtain resource rest where
    "get_resource self (PStr (node_name nd)) (interface_get (kube_interface nd) ''create'')
       ''Deployment'' = Inr (resource, rest)"
    "dict_get resource ''kind'' PNone \<notin> set (map PStr SUPPORTED_WORKLOADS)"
    by (auto simp: kind_check_def split: sum.splits)
  then have "create_manifests self nd (kube_interface nd) repos = (None, self)"
    by (rule create_manifests_unsupported)
  with False assms(1) show ?thesis by (simp add: workload_no_underscore)
qed

text \<open>The theorem at the ReplicaSet nodes \<open>my_web\<close> and \<open>web\<close>.\<close>

theorem underscore_check_before_kind_check_witness:
  "is_workload_node (container_node ''my_web'' [] (Some [(PStr ''kind'', PStr ''ReplicaSet'')]))
   \<and> kind_check (init_adaptor ''myapp'')
        (container_node ''my_web'' [] (Some [(PStr ''kind'', PStr ''ReplicaSet'')])) = Some False
   \<and> translate_node (init_adaptor ''myapp'')
        (container_node ''my_web'' [] (Some [(PStr ''kind'', PStr ''ReplicaSet'')])) docker_hub
       = (Some (ValueError ''ERROR: Use of underscores in my_web workload name prohibited''),
          init_adaptor ''myapp'')
   \<and> is_workload_node (container_node ''web'' [] (Some [(PStr ''kind'', PStr ''ReplicaSet'')]))
   \<and> kind_check (init_adaptor ''myapp'')
        (container_node ''web'' [] (Some [(PStr ''kind'', PStr ''ReplicaSet'')])) = Some False
   \<and> translate_node (init_adaptor ''myapp'')
        (container_node ''web'' [] (Some [(PStr ''kind'', PStr ''ReplicaSet'')])) docker_hub
       = (None, init_adaptor ''myapp'')"
proof -
  let ?bad = "container_node ''my_web'' [] (Some [(PStr ''kind'', PStr ''ReplicaSet'')])"
  let ?good = "container_node ''web'' [] (Some [(PStr ''kind'', PStr ''ReplicaSet'')])"
  have b1: "is_workload_node ?bad" by code_simp
  have b2: "kind_check (init_adaptor ''myapp'') ?bad = Some False" by code_simp
  have b3: "CHR ''_'' \<in> set (node_name ?bad)" by code_simp
  have b4: "naming_error ?bad (node_name ?bad)
              = ValueError ''ERROR: Use of underscores in my_web workload name prohibited''"
    by code_simp
  have g1: "is_workload_node ?good" by code_simp
  have g2: "kind_check (init_adaptor ''myapp'') ?good = Some False" by code_simp
  have g3: "CHR ''_'' \<notin> set (node_name ?good)" by code_simp
  from underscore_check_before_kind_check [where repos = docker_hub, OF b1 b2] b3 b4
  have "translate_node (init_adaptor ''myapp'') ?bad docker_hub
       = (Some (ValueError ''ERROR: Use of underscores in my_web workload name prohibited''),
          init_adaptor ''myapp'')"
    by simp
  moreover from underscore_check_before_kind_check [where repos = docker_hub, OF g1 g2] g3
  have "translate_node (init_adaptor ''myapp'') ?good docker_hub = (None, init_adaptor ''myapp'')"
    by simp
  ultimately show ?thesis using b1 b2 g1 g2 by blast
qed

section \<open>The image of a workload\<close>

text \<open>
  Claim C7 as it stands fails on both sides.  A workload node for which no image can be
  resolved does not always raise the missing-image error.  With the kind \<open>ReplicaSet\<close> and no
  artifact at all (for which \<open>_get_image\<close> returns the empty string) it is skipped by the
  kind check before the image is looked for: the translation raises nothing and ends as
  skipped.  With an underscore in its name it raises the naming error.  And with the image
  artifact in the short notation \<open>image: nginx\<close>, which is a string and not a mapping,
  \<open>_get_image\<close> raises an \<open>AttributeError\<close> at the lookup of \<open>file\<close>, and so does the
  translation.  On the other side, a container spec is built without an \<open>image\<close> field when
  the node's own properties have an \<open>image\<close> key with an empty value, which \<open>setdefault\<close>
  leaves in place and the final clean-up drops.
\<close>

theorem missing_image_counterexample:
  "get_image [] docker_hub = Inr (PStr [])
   \<and> translate (init_adaptor ''myapp'')
       [(container_node ''web'' [] (Some [(PStr ''kind'', PStr ''ReplicaSet'')]))\<lparr>entity_tpl := []\<rparr>]
       docker_hub
     = (None,
        \<lparr>short_id = ''myapp'', status = ''Skipped Translation'', manifests = [], services = [],
         volumes = []\<rparr>)
   \<and> translate (init_adaptor ''myapp'')
       [(container_node ''my_web'' [] None)\<lparr>entity_tpl := []\<rparr>]
       docker_hub
     = (Some (ValueError ''ERROR: Use of underscores in my_web workload name prohibited''),
        \<lparr>short_id = ''myapp'', status = ''Translating...'', manifests = [], services = [],
         volumes = []\<rparr>)
   \<and> get_image [(PStr ''artifacts'', PDict [(PStr ''image'', PStr ''nginx'')])] docker_hub
     = Inl AttributeError
   \<and> translate (init_adaptor ''myapp'')
       [(container_node ''web'' [] None)
          \<lparr>entity_tpl := [(PStr ''artifacts'', PDict [(PStr ''image'', PStr ''nginx'')])]\<rparr>]
       docker_hub
     = (Some AttributeError,
        \<lparr>short_id = ''myapp'', status = ''Translating...'', manifests = [], services = [],
         volumes = []\<rparr>)
   \<and> get_container (container_node ''web'' [] None) [(PStr ''image'', PNone)] docker_hub []
     = Inr ([(PStr ''name'', PStr ''web'')],
            [(PStr ''image'', PNone),
             (PStr ''name'', PStr ''web''),
             (PStr ''command'', PList []),
             (PStr ''args'', PList []),
             (PStr ''env'', PList []),
             (PStr ''stdin'', PNone),
             (PStr ''livenessProbe'', PNone)],
            [])"
  by code_simp

text \<open>
  Claim C7, amended.  Take a workload node without an underscore in its name that passes
  the kind check, and let \<open>_get_image\<close> find no image in the way it provides for: the
  \<open>artifacts\<close> of the node's template and their \<open>image\<close> entry are mappings (an absent key
  stands for the empty mapping), and the \<open>file\<close> or the \<open>repository\<close> of the entry is missing
  or empty, or the list of repositories is empty.  Then the step of the loop raises the
  missing-image error that names the node, and the adaptor is unchanged.  And a container
  spec that is built from properties whose \<open>image\<close> value, if they have one, is not empty
  has an \<open>image\<close> field with a non-empty value: that property when there is one, else the
  non-empty image that \<open>_get_image\<close> has resolved.
\<close>

theorem missing_image_raises:
  "(is_workload_node nd \<and> CHR ''_'' \<notin> set (node_name nd) \<and> kind_check self nd = Some True
      \<and> dict_get (entity_tpl nd) ''artifacts'' (PDict []) = PDict artifacts
      \<and> dict_get artifacts ''image'' (PDict []) = PDict details
      \<and> (\<not> truthy (dict_get details ''file'' PNone)
         \<or> \<not> truthy (dict_get details ''repository'' PNone) \<or> repos = [])
    \<longrightarrow> translate_node self nd repos
          = (Some (ValueError (''No image specified for '' @ node_name nd @ ''!'')), self))
   \<and> (get_container nd props repos inputs = Inr (container, props', inputs')
        \<and> (case map_of props (PStr ''image'') of None \<Rightarrow> True | Some v \<Rightarrow> truthy v)
      \<longrightarrow> (\<exists>resolved. get_image (entity_tpl nd) repos = Inr resolved \<and> truthy resolved
             \<and> map_of container (PStr ''image'') = Some (dict_get props ''image'' resolved)
             \<and> truthy (dict_get props ''image'' resolved)))"
proof (intro conjI impI)
  assume a: "is_workload_node nd \<and> CHR ''_'' \<notin> set (node_name nd) \<and> kind_check self nd = Some True
      \<and> dict_get (entity_tpl nd) ''artifacts'' (PDict []) = PDict artifacts
      \<and> dict_get artifacts ''image'' (PDict []) = PDict details
      \<and> (\<not> truthy (dict_get details ''file'' PNone)
         \<or> \<not> truthy (dict_get details ''repository'' PNone) \<or> repos = [])"
  then have img: "get_image (entity_tpl nd) repos = Inr (PStr [])"
    by (intro get_image_unresolved [of _ artifacts details]) simp_all
  from a obtain resource rest where
    "get_resource self (PStr (node_name nd)) (interface_get (kube_interface nd) ''create'')
       ''Deployment'' = Inr (resource, rest)"
    "dict_get resource ''kind'' PNone \<in> set (map PStr SUPPORTED_WORKLOADS)"
    by (auto simp: kind_check_def split: sum.splits)
  with img have "create_manifests self nd (kube_interface nd) repos
           = (Some (ValueError (''No image specified for '' @ node_name nd @ ''!'')), self)"
    by (intro create_manifests_no_image [where img = "PStr []"]) simp_all
  with a show "translate_node self nd repos
          = (Some (ValueError (''No image specified for '' @ node_name nd @ ''!'')), self)"
    by (simp add: workload_no_underscore)
next
  assume b: "get_container nd props repos inputs = Inr (container, props', inputs')
        \<and> (case map_of props (PStr ''image'') of None \<Rightarrow> True | Some v \<Rightarrow> truthy v)"
  from get_container_image [OF conjunct1 [OF b] conjunct2 [OF b]]
  show "\<exists>resolved. get_image (entity_tpl nd) repos = Inr resolved \<and> truthy resolved
             \<and> map_of container (PStr ''image'') = Some (dict_get props ''image'' resolved)
             \<and> truthy (dict_get props ''image'' resolved)" .
qed

text \<open>
  The theorem at the node \<open>web\<close>.  With an image artifact that names the file \<open>nginx\<close> and no
  repository, the step raises the missing-image error.  With the artifact of the scenarios
  and the \<open>image\<close> property \<open>custom\<close>, the container spec has the image \<open>custom\<close>, and
  \<open>_get_image\<close> has resolved \<open>nginx\<close>.
\<close>

theorem missing_image_raises_witness:
  "(is_workload_node
      ((container_node ''web'' [] None)
         \<lparr>entity_tpl :=
            [(PStr ''artifacts'', PDict [(PStr ''image'', PDict [(PStr ''file'', PStr ''nginx'')])])]\<rparr>)
    \<and> CHR ''_'' \<notin> set ''web''
    \<and> kind_check (init_adaptor ''myapp'')
        ((container_node ''web'' [] None)
           \<lparr>entity_tpl :=
              [(PStr ''artifacts'', PDict [(PStr ''image'', PDict [(PStr ''file'', PStr ''nginx'')])])]\<rparr>)
        = Some True
    \<and> dict_get
         [(PStr ''artifacts'', PDict [(PStr ''image'', PDict [(PStr ''file'', PStr ''nginx'')])])]
         ''artifacts'' (PDict [])
        = PDict [(PStr ''image'', PDict [(PStr ''file'', PStr ''nginx'')])]
    \<and> dict_get [(PStr ''image'', PDict [(PStr ''file'', PStr ''nginx'')])] ''image'' (PDict [])
        = PDict [(PStr ''file'', PStr ''nginx'')]
    \<and> \<not> truthy (dict_get [(PStr ''file'', PStr ''nginx'')] ''repository'' PNone))
   \<and> translate_node (init_adaptor ''myapp'')
       ((container_node ''web'' [] None)
          \<lparr>entity_tpl :=
             [(PStr ''artifacts'', PDict [(PStr ''image'', PDict [(PStr ''file'', PStr ''nginx'')])])]\<rparr>)
       docker_hub
     = (Some (ValueError ''No image specified for web!''), init_adaptor ''myapp'')
   \<and> (get_container (container_node ''web'' [] None) [(PStr ''image'', PStr ''custom'')] docker_hub []
        = Inr ([(PStr ''image'', PStr ''custom''), (PStr ''name'', PStr ''web'')],
               [(PStr ''image'', PStr ''custom''),
                (PStr ''name'', PStr ''web''),
                (PStr ''command'', PList []),
                (PStr ''args'', PList []),
                (PStr ''env'', PList []),
                (PStr ''stdin'', PNone),
                (PStr ''livenessProbe'', PNone)],
               [])
      \<and> (case map_of [(PStr ''image'', PStr ''custom'')] (PStr ''image'') of
            None \<Rightarrow> True | Some v \<Rightarrow> truthy v))
   \<and> (\<exists>resolved. get_image (entity_tpl (container_node ''web'' [] None)) docker_hub = Inr resolved
          \<and> truthy resolved
          \<and> map_of [(PStr ''image'', PStr ''custom''), (PStr ''name'', PStr ''web'')] (PStr ''image'')
              = Some (dict_get [(PStr ''image'', PStr ''custom'')] ''image'' resolved)
          \<and> truthy (dict_get [(PStr ''image'', PStr ''custom'')] ''image'' resolved))
   \<and> get_image (entity_tpl (container_node ''web'' [] None)) docker_hub = Inr (PStr ''nginx'')
   \<and> map_of [(PStr ''image'', PStr ''custom''), (PStr ''name'', PStr ''web'')] (PStr ''image'')
       = Some (PStr ''custom'')"
proof -
  let ?tpl = "[(PStr ''artifacts'', PDict [(PStr ''image'', PDict [(PStr ''file'', PStr ''nginx'')])])]"
  let ?artifacts = "[(PStr ''image'', PDict [(PStr ''file'', PStr ''nginx'')])]"
  let ?details = "[(PStr ''file'', PStr ''nginx'')]"
  let ?bare = "(container_node ''web'' [] None)\<lparr>entity_tpl := ?tpl\<rparr>"
  let ?web = "container_node ''web'' [] None"
  let ?props = "[(PStr ''image'', PStr ''custom'')]"
  have h1: "is_workload_node ?bare \<and> CHR ''_'' \<notin> set ''web''
      \<and> kind_check (init_adaptor ''myapp'') ?bare = Some True
      \<and> dict_get ?tpl ''artifacts'' (PDict []) = PDict ?artifacts
      \<and> dict_get ?artifacts ''image'' (PDict []) = PDict ?details
      \<and> \<not> truthy (dict_get ?details ''repository'' PNone)"
    by code_simp
  have n: "node_name ?bare = ''web''" "entity_tpl ?bare = ?tpl"
    by code_simp+
  have h2: "get_container ?web ?props docker_hub []
        = Inr ([(PStr ''image'', PStr ''custom''), (PStr ''name'', PStr ''web'')],
               [(PStr ''image'', PStr ''custom''),
                (PStr ''name'', PStr ''web''),
                (PStr ''command'', PList []),
                (PStr ''args'', PList []),
                (PStr ''env'', PList []),
                (PStr ''stdin'', PNone),
                (PStr ''livenessProbe'', PNone)],
               [])
      \<and> (case map_of ?props (PStr ''image'') of None \<Rightarrow> True | Some v \<Rightarrow> truthy v)"
    by code_simp
  have h3: "get_image (entity_tpl ?web) docker_hub = Inr (PStr ''nginx'')
      \<and> map_of [(PStr ''image'', PStr ''custom''), (PStr ''name'', PStr ''web'')] (PStr ''image'')
          = Some (PStr ''custom'')"
    by code_simp
  from missing_image_raises [where nd = ?bare and self = "init_adaptor ''myapp''"
      and repos = docker_hub and artifacts = ?artifacts and details = ?details] h1
  have c1: "translate_node (init_adaptor ''myapp'') ?bare docker_hub
     = (Some (ValueError ''No image specified for web!''), init_adaptor ''myapp'')"
    unfolding n by (simp del: truthy.simps)
  from missing_image_raises [where nd = ?web and repos = docker_hub and props = ?props
      and inputs = "[]"
      and container = "[(PStr ''image'', PStr ''custom''), (PStr ''name'', PStr ''web'')]"] h2
  have c2: "\<exists>resolved. get_image (entity_tpl ?web) docker_hub = Inr resolved
          \<and> truthy resolved
          \<and> map_of [(PStr ''image'', PStr ''custom''), (PStr ''name'', PStr ''web'')] (PStr ''image'')
              = Some (dict_get ?props ''image'' resolved)
          \<and> truthy (dict_get ?props ''image'' resolved)"
    by blast
  from h1 c1 h2 c2 h3 show ?thesis by blast
qed

section \<open>The \<open>app\<close> label\<close>

text \<open>
  Claim C9 as it stands fails: the label \<open>app\<close> is set with \<open>setdefault\<close>, so an \<open>app\<close> label
  that the \<open>create\<close> inputs bring is kept.  With \<open>metadata: {labels: {app: shop}}\<close> in the
  \<open>create\<close> inputs and the application id \<open>myapp\<close>, the labels of the Deployment are
  \<open>{app: shop}\<close>.
\<close>

theorem app_label_counterexample:
  "translate (init_adaptor ''myapp'')
     [container_node ''web'' []
        (Some [(PStr ''metadata'', PDict [(PStr ''labels'', PDict [(PStr ''app'', PStr ''shop'')])])])]
     docker_hub =
   (None,
     \<lparr>short_id = ''myapp'', status = ''Translated'',
        manifests =
          [PDict
            [(PStr ''apiVersion'', PStr ''apps/v1''),
             (PStr ''kind'', PStr ''Deployment''),
             (PStr ''metadata'',
              PDict
               [(PStr ''labels'', PDict [(PStr ''app'', PStr ''shop'')]),
                (PStr ''name'', PStr ''web'')]),
             (PStr ''spec'',
              PDict
               [(PStr ''selector'',
                 PDict
                  [(PStr ''matchLabels'',
                    PDict [(PStr ''run'', PStr ''web'')])]),
                (PStr ''template'',
                 PDict
                  [(PStr ''metadata'',
                    PDict
                     [(PStr ''labels'',
                       PDict [(PStr ''run'', PStr ''web'')])]),
                   (PStr ''spec'',
                    PDict
                     [(PStr ''containers'',
                       PList
                        [PDict
                          [(PStr ''image'', PStr ''nginx''),
                           (PStr ''name'', PStr ''web'')]])])])])]],
        services = [], volumes = []\<rparr>)
   \<and> PStr ''shop'' \<noteq> PStr (short_id (init_adaptor ''myapp''))"
  by code_simp

text \<open>
  Claim C9, amended.  When \<open>_create_manifests\<close> returns and has appended manifests, the
  last of them is the workload resource, and its metadata labels have the entry \<open>app\<close>: the
  value is the \<open>app\<close> label that the \<open>create\<close> inputs carry, and the application id when they
  carry none.
\<close>

theorem app_label_default:
  assumes "create_manifests self nd iface repos = (None, self')"
    and "manifests self' \<noteq> manifests self"
  shows "\<exists>m md labels.
           last (manifests self') = PDict m
         \<and> map_of m (PStr ''metadata'') = Some (PDict md)
         \<and> map_of md (PStr ''labels'') = Some (PDict labels)
         \<and> map_of labels (PStr ''app'') =
             Some (case operator_app_label (interface_get iface ''create'') of
                     None \<Rightarrow> PStr (short_id self) | Some v \<Rightarrow> v)"
proof -
  from create_manifests_appends [OF assms] obtain resource rest spec where
    res: "get_resource self (PStr (node_name nd)) (interface_get iface ''create'') ''Deployment''
            = Inr (resource, rest)" and
    last: "last (manifests self') = PDict (snd (dict_setdefault resource ''spec'' spec))"
    by blast
  from get_resource_result [OF res] obtain md labels where
    "map_of resource (PStr ''metadata'') = Some (PDict md)"
    "map_of md (PStr ''labels'') = Some (PDict labels)"
    "map_of labels (PStr ''app'') =
       Some (case operator_app_label (interface_get iface ''create'') of
               None \<Rightarrow> PStr (short_id self) | Some v \<Rightarrow> v)"
    by auto
  moreover from this(1)
  have "map_of (snd (dict_setdefault resource ''spec'' spec)) (PStr ''metadata'') = Some (PDict md)"
    by simp
  ultimately show ?thesis using last by blast
qed

text \<open>
  The theorem at the node \<open>web\<close> without \<open>create\<close> inputs: the Deployment is appended and its
  label is \<open>app: myapp\<close>.
\<close>

theorem app_label_default_witness:
  "create_manifests (init_adaptor ''myapp'') (container_node ''web'' [] None)
     (kube_interface (container_node ''web'' [] None)) docker_hub
   = (None,
       \<lparr>short_id = ''myapp'', status = ''Initialised'',
          manifests =
            [PDict
              [(PStr ''apiVersion'', PStr ''apps/v1''),
               (PStr ''kind'', PStr ''Deployment''),
               (PStr ''metadata'',
                PDict
                 [(PStr ''name'', PStr ''web''),
                  (PStr ''labels'', PDict [(PStr ''app'', PStr ''myapp'')])]),
               (PStr ''spec'',
                PDict
                 [(PStr ''selector'',
                   PDict
                    [(PStr ''matchLabels'',
                      PDict [(PStr ''run'', PStr ''web'')])]),
                  (PStr ''template'',
                   PDict
                    [(PStr ''metadata'',
                      PDict
                       [(PStr ''labels'',
                         PDict [(PStr ''run'', PStr ''web'')])]),
                     (PStr ''spec'',
                      PDict
                       [(PStr ''containers'',
                         PList
                          [PDict
                            [(PStr ''image'', PStr ''nginx''),
                             (PStr ''name'', PStr ''web'')]])])])])]],
          services = [], volumes = []\<rparr>)
   \<and> manifests (snd (create_manifests (init_adaptor ''myapp'') (container_node ''web'' [] None)
                       (kube_interface (container_node ''web'' [] None)) docker_hub))
       \<noteq> manifests (init_adaptor ''myapp'')
   \<and> operator_app_label (interface_get (kube_interface (container_node ''web'' [] None)) ''create'')
       = None
   \<and> (\<exists>m md labels.
         last (manifests (snd (create_manifests (init_adaptor ''myapp'') (container_node ''web'' [] None)
                                 (kube_interface (container_node ''web'' [] None)) docker_hub)))
           = PDict m
       \<and> map_of m (PStr ''metadata'') = Some (PDict md)
       \<and> map_of md (PStr ''labels'') = Some (PDict labels)
       \<and> map_of labels (PStr ''app'') = Some (PStr ''myapp''))"
proof -
  let ?run = "create_manifests (init_adaptor ''myapp'') (container_node ''web'' [] None)
                (kube_interface (container_node ''web'' [] None)) docker_hub"
  have h0: "?run = (None,
       \<lparr>short_id = ''myapp'', status = ''Initialised'',
          manifests =
            [PDict
              [(PStr ''apiVersion'', PStr ''apps/v1''),
               (PStr ''kind'', PStr ''Deployment''),
               (PStr ''metadata'',
                PDict
                 [(PStr ''name'', PStr ''web''),
                  (PStr ''labels'', PDict [(PStr ''app'', PStr ''myapp'')])]),
               (PStr ''spec'',
                PDict
                 [(PStr ''selector'',
                   PDict
                    [(PStr ''matchLabels'',
                      PDict [(PStr ''run'', PStr ''web'')])]),
                  (PStr ''template'',
                   PDict
                    [(PStr ''metadata'',
                      PDict
                       [(PStr ''labels'',
                         PDict [(PStr ''run'', PStr ''web'')])]),
                     (PStr ''spec'',
                      PDict
                       [(PStr ''containers'',
                         PList
                          [PDict
                            [(PStr ''image'', PStr ''nginx''),
                             (PStr ''name'', PStr ''web'')]])])])])]],
          services = [], volumes = []\<rparr>)"
    by code_simp
  have h1: "?run = (None, snd ?run)"
    by code_simp
  have h2: "manifests (snd ?run) \<noteq> manifests (init_adaptor ''myapp'')"
    by code_simp
  have h3: "operator_app_label (interface_get (kube_interface (container_node ''web'' [] None)) ''create'')
       = None"
    by code_simp
  have h4: "short_id (init_adaptor ''myapp'') = ''myapp''"
    by code_simp
  from app_label_default [OF h1 h2]
  have "\<exists>m md labels.
         last (manifests (snd ?run)) = PDict m
       \<and> map_of m (PStr ''metadata'') = Some (PDict md)
       \<and> map_of md (PStr ''labels'') = Some (PDict labels)
       \<and> map_of labels (PStr ''app'') = Some (PStr ''myapp'')"
    unfolding h3 h4 by simp
  with h0 h2 h3 show ?thesis by blast
qed

end
